theory Spec2Isabelle
  imports Complex_Main "HOL-Library.Sublist"
begin

section \<open>Data model of \<open>figure_resampler.py\<close>\<close>

text \<open>
  Python exceptions that the modelled code can raise. A failed \<open>assert\<close> is
  \<open>AssertionError\<close>.
\<close>

datatype error =
    AssertionError | TypeError | IndexError | KeyError | ValueError | AttributeError
  | AmbiguousTimeError | NonExistentTimeError

text \<open>
  A time zone object. \<open>tz_zone\<close> is its \<open>.zone\<close> attribute: pytz zones have one (the
  name, and \<open>None\<close> on a pytz fixed offset), other zone objects have none. The UTC
  offset is \<open>tz_offset\<close> before the first transition and, from each transition's instant
  on, the offset that transition gives; the transitions are in ascending order.
\<close>

datatype zone_attr = NoZoneAttribute | Zone "string option"

record tzinfo =
  tz_zone :: zone_attr
  tz_offset :: int
  tz_transitions :: "(int \<times> int) list"

fun offset_from :: "int \<Rightarrow> (int \<times> int) list \<Rightarrow> int \<Rightarrow> int" where
  "offset_from off [] i = off"
| "offset_from off (tr # rest) i = (if fst tr \<le> i then offset_from (snd tr) rest i else off)"

definition utcoffset :: "tzinfo \<Rightarrow> int \<Rightarrow> int" where
  "utcoffset z i = offset_from (tz_offset z) (tz_transitions z) i"

text \<open>
  The instants at which the clocks of a zone read \<open>w\<close>: none inside a gap, two where a
  reading repeats.
\<close>

definition utc_candidates :: "tzinfo \<Rightarrow> int \<Rightarrow> int list" where
  "utc_candidates z w =
     filter (\<lambda>i. i + utcoffset z i = w)
       (remdups (map (\<lambda>off. w - off) (tz_offset z # map snd (tz_transitions z))))"

definition localize :: "tzinfo \<Rightarrow> int \<Rightarrow> error + int" where
  "localize z w =
     (case utc_candidates z w of
        [] \<Rightarrow> Inl NonExistentTimeError
      | [i] \<Rightarrow> Inr i
      | _ \<Rightarrow> Inl AmbiguousTimeError)"

text \<open>
  A \<open>pd.Timestamp\<close>: its zone (\<open>None\<close> when naive) and its value, which is the UTC
  instant of an aware timestamp and the wall-clock reading of a naive one.
\<close>

record timestamp =
  ts_value :: int
  tz :: "tzinfo option"

definition wall_clock :: "timestamp \<Rightarrow> int" where
  "wall_clock ts =
     (case tz ts of None \<Rightarrow> ts_value ts | Some z \<Rightarrow> ts_value ts + utcoffset z (ts_value ts))"

text \<open>
  \<open>Timestamp.tz_localize(tz)\<close> with its default arguments: a naive timestamp gets the
  zone and the instant at which the zone's clocks show its reading, and the call raises
  when there is no such instant or more than one; \<open>tz_localize(None)\<close> turns an aware
  timestamp into the naive one with the same wall-clock reading; localizing an aware
  timestamp to a zone raises \<open>TypeError\<close>.
\<close>

definition tz_localize :: "timestamp \<Rightarrow> tzinfo option \<Rightarrow> error + timestamp" where
  "tz_localize ts target =
     (case tz ts of
        None \<Rightarrow>
          (case target of
             None \<Rightarrow> Inr ts
           | Some z \<Rightarrow>
               (case localize z (ts_value ts) of
                  Inl e \<Rightarrow> Inl e
                | Inr i \<Rightarrow> Inr \<lparr>ts_value = i, tz = Some z\<rparr>))
      | Some z0 \<Rightarrow>
          (case target of
             None \<Rightarrow> Inr \<lparr>ts_value = wall_clock ts, tz = None\<rparr>
           | Some z \<Rightarrow> Inl TypeError))"

text \<open>
  The index of a \<open>pd.Series\<close>: integer positions, float positions (a finite float is
  a rational), or a \<open>pd.DatetimeIndex\<close> with its zone and the values of its
  timestamps.
\<close>

datatype index =
    Int64Index "int list"
  | Float64Index "rat list"
  | DatetimeIndex "tzinfo option" "int list"

fun index_keys :: "index \<Rightarrow> rat list" where
  "index_keys (Int64Index ks) = map of_int ks"
| "index_keys (Float64Index ks) = ks"
| "index_keys (DatetimeIndex z ks) = map of_int ks"

fun index_len :: "index \<Rightarrow> nat" where
  "index_len (Int64Index ks) = length ks"
| "index_len (Float64Index ks) = length ks"
| "index_len (DatetimeIndex z ks) = length ks"

text \<open>Python's \<open>xs[a:b]\<close> for \<open>0 \<le> a\<close>, \<open>0 \<le> b\<close>: empty when \<open>b \<le> a\<close>.\<close>

definition py_slice :: "nat \<Rightarrow> nat \<Rightarrow> 'a list \<Rightarrow> 'a list" where
  "py_slice a b xs = take (b - a) (drop a xs)"

fun index_iloc :: "nat \<Rightarrow> nat \<Rightarrow> index \<Rightarrow> index" where
  "index_iloc a b (Int64Index ks) = Int64Index (py_slice a b ks)"
| "index_iloc a b (Float64Index ks) = Float64Index (py_slice a b ks)"
| "index_iloc a b (DatetimeIndex z ks) = DatetimeIndex z (py_slice a b ks)"

text \<open>
  A \<open>pd.Series\<close>: index, dtype and values. A value is a number or NaN (\<open>None\<close>);
  an array of dtype \<open>object\<close> (or categorical) is one on which \<open>np.isnan\<close> raises.
\<close>

datatype dtype = Numeric | Object

record series =
  s_index :: index
  s_dtype :: dtype
  s_values :: "rat option list"

definition series_len :: "series \<Rightarrow> nat" where
  "series_len s = index_len (s_index s)"

definition iloc :: "nat \<Rightarrow> nat \<Rightarrow> series \<Rightarrow> series" where
  "iloc a b s = s\<lparr>s_index := index_iloc a b (s_index s), s_values := py_slice a b (s_values s)\<rparr>"

text \<open>The (position, value) pairs of a series, in order.\<close>

definition series_pairs :: "series \<Rightarrow> (rat \<times> rat option) list" where
  "series_pairs s = zip (index_keys (s_index s)) (s_values s)"

text \<open>
  \<open>np.searchsorted(a, v, side)\<close> on a sorted array: the leftmost insertion point
  (the number of leading elements below \<open>v\<close>) for \<open>side='left'\<close>, the default, and the
  rightmost one (the number of leading elements not above \<open>v\<close>) for \<open>side='right'\<close>.
\<close>

definition searchsorted_left :: "rat list \<Rightarrow> rat \<Rightarrow> nat" where
  "searchsorted_left ks v = length (takeWhile (\<lambda>k. k < v) ks)"

definition searchsorted_right :: "rat list \<Rightarrow> rat \<Rightarrow> nat" where
  "searchsorted_right ks v = length (takeWhile (\<lambda>k. k \<le> v) ks)"

section \<open>\<open>FigureResampler._slice_time\<close>\<close>

text \<open>
  The inner function \<open>to_same_tz(ts, reference_tz)\<close>, branch by branch. The assertion
  reads \<open>ts.tz.zone\<close> and then \<open>reference_tz.zone\<close>, either of which raises
  \<open>AttributeError\<close> on a zone object without that attribute, and compares the two
  values.
\<close>

definition zone_of :: "tzinfo \<Rightarrow> error + string option" where
  "zone_of z = (case tz_zone z of NoZoneAttribute \<Rightarrow> Inl AttributeError | Zone n \<Rightarrow> Inr n)"

definition to_same_tz :: "tzinfo option \<Rightarrow> timestamp option \<Rightarrow> error + timestamp option" where
  "to_same_tz reference_tz ts =
     (case ts of
        None \<Rightarrow> Inr None
      | Some t \<Rightarrow>
          (case reference_tz of
             Some rz \<Rightarrow>
               (case tz t of
                  Some z \<Rightarrow>
                    (case zone_of z of
                       Inl e \<Rightarrow> Inl e
                     | Inr n \<Rightarrow>
                         (case zone_of rz of
                            Inl e \<Rightarrow> Inl e
                          | Inr rn \<Rightarrow> if n = rn then Inr (Some t) else Inl AssertionError))
                | None \<Rightarrow>
                    (case tz_localize t (Some rz) of
                       Inl e \<Rightarrow> Inl e
                     | Inr t' \<Rightarrow> Inr (Some t')))
           | None \<Rightarrow>
               (case tz t of
                  Some z \<Rightarrow>
                    (case tz_localize t None of
                       Inl e \<Rightarrow> Inl e
                     | Inr t' \<Rightarrow> Inr (Some t'))
                | None \<Rightarrow> Inr (Some t))))"

text \<open>
  \<open>hf_series[a:b]\<close> with timestamp labels on a sorted \<open>DatetimeIndex\<close>: pandas' label
  slice keeps both ends, from the leftmost position of \<open>a\<close> to the rightmost position
  of \<open>b\<close>; an absent label leaves that side open. A label is compared with the index by
  value: two aware timestamps by their instants, two naive ones by their readings. A
  label that is aware on a naive index, or naive on an aware one, is refused;
  \<open>_slice_time\<close> never passes one.
\<close>

definition label_key :: "tzinfo option \<Rightarrow> timestamp \<Rightarrow> error + rat" where
  "label_key index_tz t =
     (if (index_tz = None) = (tz t = None) then Inr (of_int (ts_value t)) else Inl TypeError)"

definition label_slice :: "series \<Rightarrow> timestamp option \<Rightarrow> timestamp option \<Rightarrow> error + series" where
  "label_slice s a b =
     (case s_index s of
        DatetimeIndex index_tz vs \<Rightarrow>
          (let ks = index_keys (s_index s)
           in case (case a of None \<Rightarrow> Inr 0
                    | Some t \<Rightarrow> map_sum id (searchsorted_left ks) (label_key index_tz t)) of
                Inl e \<Rightarrow> Inl e
              | Inr i \<Rightarrow>
                  (case (case b of None \<Rightarrow> Inr (length ks)
                         | Some t \<Rightarrow> map_sum id (searchsorted_right ks) (label_key index_tz t)) of
                     Inl e \<Rightarrow> Inl e
                   | Inr j \<Rightarrow> Inr (iloc i j s)))
      | _ \<Rightarrow> Inl TypeError)"

text \<open>
  \<open>_slice_time(hf_series, t_start, t_stop)\<close>. \<open>hf_series.index.tz\<close> exists on a
  \<open>DatetimeIndex\<close> only. The start bound is normalised before the stop bound.
\<close>

definition slice_time :: "series \<Rightarrow> timestamp option \<Rightarrow> timestamp option \<Rightarrow> error + series" where
  "slice_time hf_s t_start t_stop =
     (case s_index hf_s of
        DatetimeIndex reference_tz ks \<Rightarrow>
          (case to_same_tz reference_tz t_start of
             Inl e \<Rightarrow> Inl e
           | Inr a \<Rightarrow>
               (case to_same_tz reference_tz t_stop of
                  Inl e \<Rightarrow> Inl e
                | Inr b \<Rightarrow> label_slice hf_s a b))
      | _ \<Rightarrow> Inl AttributeError)"

section \<open>Traces, entries and the resampler object\<close>

text \<open>
  Array-likes. \<open>Array\<close> is a numpy array or a pandas Index (boolean-mask indexing
  works); \<open>Sequence\<close> is a plain list or tuple, which is what a plotly trace hands back
  for data given as a list (indexing it with a mask raises \<open>TypeError\<close>). Positions of
  constructor \<open>DatetimeIndex\<close> in an \<open>Array\<close> are a \<open>pd.DatetimeIndex\<close>. A
  \<open>pd.Series\<close> argument is represented by its \<open>.values\<close>.
\<close>

datatype container = Array | Sequence

type_synonym xdata = "container \<times> index"

record ydata =
  y_container :: container
  y_dtype :: dtype
  y_cells :: "rat option list"

text \<open>
  Hover text: one string for the whole trace, a list, a tuple, a numpy array, or a
  \<open>pd.Series\<close> with its index. A missing cell is \<open>None\<close>. Reading a property of
  a plotly trace hands a list back as a tuple (\<open>present\<close>).
\<close>

datatype hover =
    HoverStr string
  | HoverList "string option list"
  | HoverTuple "string option list"
  | HoverArray "string option list"
  | HoverSeries index "string option list"

text \<open>
  A trace (plotly object or dict). \<open>t_props\<close> stands for every property the code
  never names (marker, line, mode, ...).
\<close>

definition present :: "hover option \<Rightarrow> hover option" where
  "present h = (case h of Some (HoverList vs) \<Rightarrow> Some (HoverTuple vs) | other \<Rightarrow> other)"

record trace =
  t_uid :: "string option"
  t_type :: string
  t_name :: "string option"
  t_x :: "xdata option"
  t_y :: "ydata option"
  t_text :: "hover option"
  t_hovertext :: "hover option"
  t_yaxis :: "string option"
  t_props :: "(string \<times> string) list"

datatype axis = DateAxis | LinearAxis

text \<open>
  One value of \<open>self._hf_data\<close>. The downsamplers live in the module
  \<open>downsamplers\<close>; an entry holds the \<open>downsample(series, n_out)\<close> method of its
  downsampler as a function.
\<close>

record hf_entry =
  max_n_samples :: int
  hf_series :: series
  axis_type :: axis
  downsampler :: "series \<Rightarrow> int \<Rightarrow> series"
  e_hovertext :: "hover option"

record figure_resampler =
  hf_data :: "string \<Rightarrow> hf_entry option"
  global_n_shown_samples :: int
  fr_prefix :: string
  fr_suffix :: string
  global_downsampler :: "series \<Rightarrow> int \<Rightarrow> series"
  fr_data :: "trace list"

text \<open>A range bound as the front end sends it: a number or a time.\<close>

datatype bound = Num rat | Time timestamp

section \<open>\<open>FigureResampler._query_hf_data\<close>\<close>

definition query_hf_data :: "figure_resampler \<Rightarrow> trace \<Rightarrow> hf_entry option" where
  "query_hf_data self trace =
     (case t_uid trace of None \<Rightarrow> None | Some uid \<Rightarrow> hf_data self uid)"

section \<open>\<open>FigureResampler.check_update_trace_data\<close>\<close>

text \<open>Python's \<open>round(x)\<close>: to the nearest integer, a tie to the even one.\<close>

definition py_round :: "rat \<Rightarrow> int" where
  "py_round r =
     (let f = \<lfloor>r\<rfloor>; d = r - of_int f
      in if d < 1 / 2 then f
         else if 1 / 2 < d then f + 1
         else if even f then f else f + 1)"

text \<open>
  \<open>pd.to_datetime\<close> of a bound. The docstring takes the bounds to be of the axis' own
  kind; a number on a date axis is outside the modelled inputs and reported as
  \<open>TypeError\<close>.
\<close>

definition to_datetime :: "bound option \<Rightarrow> error + timestamp option" where
  "to_datetime b =
     (case b of None \<Rightarrow> Inr None | Some (Time t) \<Rightarrow> Inr (Some t) | Some (Num r) \<Rightarrow> Inl TypeError)"

text \<open>
  The \<open>else\<close> branch of the slicing (lines 150 to 159): an absent bound is the first,
  respectively last, index key; on an integer index both bounds are rounded; both
  positions are found by \<open>np.searchsorted\<close> with its default side, and the series is
  cut with \<open>iloc[start_idx:end_idx]\<close>. A time bound here is a \<open>TypeError\<close>.
\<close>

definition linear_bound :: "rat list \<Rightarrow> bool \<Rightarrow> bound option \<Rightarrow> error + rat" where
  "linear_bound ks at_end b =
     (case b of
        None \<Rightarrow> if ks = [] then Inl IndexError else Inr (if at_end then last ks else hd ks)
      | Some (Num r) \<Rightarrow> Inr r
      | Some (Time t) \<Rightarrow> Inl TypeError)"

definition round_bound :: "index \<Rightarrow> rat \<Rightarrow> rat" where
  "round_bound idx r = (case idx of Int64Index ks \<Rightarrow> of_int (py_round r) | _ \<Rightarrow> r)"

definition slice_linear :: "series \<Rightarrow> bound option \<Rightarrow> bound option \<Rightarrow> error + series" where
  "slice_linear hf_s start end =
     (let ks = index_keys (s_index hf_s)
      in case linear_bound ks False start of
           Inl e \<Rightarrow> Inl e
         | Inr st \<Rightarrow>
             (case linear_bound ks True end of
                Inl e \<Rightarrow> Inl e
              | Inr en \<Rightarrow>
                  (let start_idx = searchsorted_left ks (round_bound (s_index hf_s) st);
                       end_idx = searchsorted_left ks (round_bound (s_index hf_s) en)
                   in Inr (iloc start_idx end_idx hf_s))))"

definition slice_entry :: "hf_entry \<Rightarrow> bound option \<Rightarrow> bound option \<Rightarrow> error + series" where
  "slice_entry hf start end =
     (if axis_type hf = DateAxis then
        (case to_datetime start of
           Inl e \<Rightarrow> Inl e
         | Inr a \<Rightarrow>
             (case to_datetime end of
                Inl e \<Rightarrow> Inl e
              | Inr b \<Rightarrow> slice_time (hf_series hf) a b))
      else slice_linear (hf_series hf) start end)"

text \<open>\<open>str.startswith\<close>, \<open>str.endswith\<close>.\<close>

definition startswith :: "string \<Rightarrow> string \<Rightarrow> bool" where
  "startswith s p = prefix p s"

definition endswith :: "string \<Rightarrow> string \<Rightarrow> bool" where
  "endswith s p = suffix p s"

text \<open>
  Lines 164 and 165: the name written when the slice is longer than the budget.
\<close>

definition decorated_name :: "string \<Rightarrow> string \<Rightarrow> string \<Rightarrow> string" where
  "decorated_name pre suf name =
     (let name1 = (if startswith name pre then [] else pre) @ name
      in name1 @ (if \<not> endswith name1 suf then suf else []))"

text \<open>
  Lines 168 to 171: the two assignments of the other branch. Both read the local
  \<open>name\<close>, which is the name the trace had on entry; the second assignment, when it
  runs, replaces what the first one wrote.
\<close>

definition strip_decoration :: "string \<Rightarrow> string \<Rightarrow> string \<Rightarrow> trace \<Rightarrow> trace" where
  "strip_decoration pre suf name trace =
     (let trace1 = (if pre \<noteq> [] \<and> startswith name pre
                    then trace\<lparr>t_name := Some (drop (length pre) name)\<rparr> else trace)
      in if suf \<noteq> [] \<and> endswith name suf
         then trace1\<lparr>t_name := Some (take (length name - length suf) name)\<rparr> else trace1)"

text \<open>
  \<open>pd.merge_asof(left, right, left_index=True, right_index=True, direction="nearest")\<close>,
  the column of the right frame: for each left key the right row nearest to it, taken
  among the last row not after the key and the first row not before it, the earlier one
  on a tie; NaN when the right frame is empty. Both key columns must be sorted.
\<close>

definition nearest_match :: "(rat \<times> 'v) list \<Rightarrow> rat \<Rightarrow> 'v option" where
  "nearest_match right k =
     (let bwd = takeWhile (\<lambda>kv. fst kv \<le> k) right;
          fwd = dropWhile (\<lambda>kv. fst kv < k) right
      in if bwd = [] then (case fwd of [] \<Rightarrow> None | f # _ \<Rightarrow> Some (snd f))
         else (case fwd of
                 [] \<Rightarrow> Some (snd (last bwd))
               | f # _ \<Rightarrow> if k - fst (last bwd) \<le> fst f - k
                          then Some (snd (last bwd)) else Some (snd f)))"

definition merge_asof_nearest ::
    "rat list \<Rightarrow> (rat \<times> string option) list \<Rightarrow> error + string option list" where
  "merge_asof_nearest left right =
     (if \<not> sorted left \<or> \<not> sorted (map fst right) then Inl ValueError
      else Inr (map (\<lambda>k. case nearest_match right k of None \<Rightarrow> None | Some v \<Rightarrow> v) left))"

text \<open>
  Lines 178 to 192: the write-back of the downsampled series and of the hover text.
\<close>

definition write_back :: "hf_entry \<Rightarrow> series \<Rightarrow> trace \<Rightarrow> error + trace" where
  "write_back hf s_res trace =
     (let trace1 = trace\<lparr>t_x := Some (Array, s_index s_res),
                          t_y := Some \<lparr>y_container = Array, y_dtype = s_dtype s_res,
                                       y_cells = s_values s_res\<rparr>\<rparr>
      in case e_hovertext hf of
           Some (HoverSeries hi hv) \<Rightarrow>
             (case merge_asof_nearest (index_keys (s_index s_res)) (zip (index_keys hi) hv) of
                Inl e \<Rightarrow> Inl e
              | Inr h \<Rightarrow> Inr (trace1\<lparr>t_hovertext := Some (HoverArray h)\<rparr>))
         | other \<Rightarrow> Inr (trace1\<lparr>t_hovertext := other\<rparr>))"

text \<open>
  \<open>check_update_trace_data(trace, start, end)\<close>. The trace is updated in place in the
  source; the model returns the updated trace. A trace without a name fails at
  \<open>name.startswith\<close>.
\<close>

definition check_update_trace_data ::
    "figure_resampler \<Rightarrow> trace \<Rightarrow> bound option \<Rightarrow> bound option \<Rightarrow> error + trace" where
  "check_update_trace_data self trace start end =
     (case query_hf_data self trace of
        None \<Rightarrow> Inr trace
      | Some hf \<Rightarrow>
          (case slice_entry hf start end of
             Inl e \<Rightarrow> Inl e
           | Inr sl \<Rightarrow>
               (case t_name trace of
                  None \<Rightarrow> Inl AttributeError
                | Some name \<Rightarrow>
                    (let trace1 =
                           (if int (series_len sl) > max_n_samples hf
                            then trace\<lparr>t_name := Some (decorated_name (fr_prefix self) (fr_suffix self) name)\<rparr>
                            else strip_decoration (fr_prefix self) (fr_suffix self) name trace);
                         s_res = downsampler hf sl (max_n_samples hf)
                     in write_back hf s_res trace1))))"

section \<open>\<open>FigureResampler.check_update_figure_dict\<close>\<close>

text \<open>
  A figure dict: its traces and, of its layout, the \<open>anchor\<close> of each axis (the outer
  \<open>None\<close> is a key missing from \<open>figure["layout"]\<close>, the inner one an axis without
  \<open>anchor\<close>).
\<close>

record figure_dict =
  fig_data :: "trace list"
  fig_layout :: "string \<Rightarrow> string option option"

text \<open>\<open>s.lstrip(chars)\<close> drops leading characters that occur in \<open>chars\<close>.\<close>

definition lstrip :: "string \<Rightarrow> string \<Rightarrow> string" where
  "lstrip s chars = dropWhile (\<lambda>c. c \<in> set chars) s"

definition xaxis_filter_short :: "string \<Rightarrow> string" where
  "xaxis_filter_short xaxis_filter = ''x'' @ lstrip xaxis_filter ''xaxis_filter''"

text \<open>Lines 232 to 236: the layout key of the y-axis looked up for a trace.\<close>

definition y_axis_key :: "string \<Rightarrow> trace \<Rightarrow> string" where
  "y_axis_key xaxis_filter trace =
     (case t_yaxis trace of
        None \<Rightarrow> ''y'' @ drop 1 xaxis_filter
      | Some ya \<Rightarrow> ''yaxis'' @ drop 1 ya)"

text \<open>Lines 245 to 249: the condition of the \<open>continue\<close>.\<close>

definition skip_anchor :: "string \<Rightarrow> string option \<Rightarrow> bool" where
  "skip_anchor short x_anchor_trace =
     ((short = ''x'' \<and> x_anchor_trace \<notin> {None, Some ''x''})
      \<or> (short \<noteq> ''x'' \<and> x_anchor_trace \<noteq> Some short))"

text \<open>
  Whether the loop body reaches \<open>check_update_trace_data\<close> for a trace; the lookup
  \<open>figure["layout"][y_axis]\<close> raises \<open>KeyError\<close> on a missing key.
\<close>

definition trace_selected ::
    "(string \<Rightarrow> string option option) \<Rightarrow> string option \<Rightarrow> trace \<Rightarrow> error + bool" where
  "trace_selected layout xaxis_filter trace =
     (case xaxis_filter of
        None \<Rightarrow> Inr True
      | Some xf \<Rightarrow>
          (case layout (y_axis_key xf trace) of
             None \<Rightarrow> Inl KeyError
           | Some x_anchor_trace \<Rightarrow> Inr (\<not> skip_anchor (xaxis_filter_short xf) x_anchor_trace)))"

text \<open>The \<open>for\<close> loop over \<open>figure["data"]\<close>; an exception ends it.\<close>

fun update_traces ::
    "figure_resampler \<Rightarrow> (string \<Rightarrow> string option option) \<Rightarrow> bound option \<Rightarrow> bound option \<Rightarrow>
     string option \<Rightarrow> trace list \<Rightarrow> error + trace list" where
  "update_traces self layout start stop xaxis_filter [] = Inr []"
| "update_traces self layout start stop xaxis_filter (trace # rest) =
     (case trace_selected layout xaxis_filter trace of
        Inl e \<Rightarrow> Inl e
      | Inr sel \<Rightarrow>
          (case (if sel then check_update_trace_data self trace start stop else Inr trace) of
             Inl e \<Rightarrow> Inl e
           | Inr trace' \<Rightarrow>
               (case update_traces self layout start stop xaxis_filter rest of
                  Inl e \<Rightarrow> Inl e
                | Inr rest' \<Rightarrow> Inr (trace' # rest'))))"

definition check_update_figure_dict ::
    "figure_resampler \<Rightarrow> figure_dict \<Rightarrow> bound option \<Rightarrow> bound option \<Rightarrow> string option \<Rightarrow>
     error + figure_dict" where
  "check_update_figure_dict self figure start stop xaxis_filter =
     (case update_traces self (fig_layout figure) start stop xaxis_filter (fig_data figure) of
        Inl e \<Rightarrow> Inl e
      | Inr ts \<Rightarrow> Inr (figure\<lparr>fig_data := ts\<rparr>))"

section \<open>\<open>FigureResampler.add_trace\<close>\<close>

text \<open>\<open>str.lower\<close> on ASCII.\<close>

definition lower_char :: "char \<Rightarrow> char" where
  "lower_char c =
     (let n = (of_char c :: nat) in if 65 \<le> n \<and> n \<le> 90 then char_of (n + 32) else c)"

definition lower :: "string \<Rightarrow> string" where
  "lower s = map lower_char s"

text \<open>\<open>str(n)\<close> for the trace count in the default name.\<close>

fun str_nat :: "nat \<Rightarrow> string" where
  "str_nat n =
     (if n < 10 then [char_of (48 + n)] else str_nat (n div 10) @ [char_of (48 + n mod 10)])"

definition high_frequency_traces :: "string list" where
  "high_frequency_traces = [''scatter'', ''scattergl'']"

text \<open>
  The statements inside the \<open>try\<close> (lines 419 to 429), each able to raise.
  \<open>~np.isnan(hf_y)\<close> raises on \<open>None\<close> and on dtype \<open>object\<close>; indexing with the mask
  raises on \<open>None\<close>, on a list or tuple, and on an array of another length. The
  \<open>astype("uint32")\<close> of lines 423 to 425 changes no value and is left out.
\<close>

definition not_nan_mask :: "ydata option \<Rightarrow> error + bool list" where
  "not_nan_mask hf_y =
     (case hf_y of
        None \<Rightarrow> Inl TypeError
      | Some yd \<Rightarrow> if y_dtype yd = Object then Inl TypeError
                   else Inr (map (\<lambda>c. c \<noteq> None) (y_cells yd)))"

definition mask_list :: "bool list \<Rightarrow> 'a list \<Rightarrow> 'a list" where
  "mask_list msk xs = map fst (filter snd (zip xs msk))"

fun index_mask :: "bool list \<Rightarrow> index \<Rightarrow> index" where
  "index_mask msk (Int64Index ks) = Int64Index (mask_list msk ks)"
| "index_mask msk (Float64Index ks) = Float64Index (mask_list msk ks)"
| "index_mask msk (DatetimeIndex z ks) = DatetimeIndex z (mask_list msk ks)"

definition mask_x :: "xdata option \<Rightarrow> bool list \<Rightarrow> error + xdata option" where
  "mask_x hf_x msk =
     (case hf_x of
        None \<Rightarrow> Inl TypeError
      | Some (Sequence, idx) \<Rightarrow> Inl TypeError
      | Some (Array, idx) \<Rightarrow>
          if index_len idx \<noteq> length msk then Inl IndexError
          else Inr (Some (Array, index_mask msk idx)))"

definition mask_y :: "ydata option \<Rightarrow> bool list \<Rightarrow> error + ydata option" where
  "mask_y hf_y msk =
     (case hf_y of
        None \<Rightarrow> Inl TypeError
      | Some yd \<Rightarrow>
          if y_container yd = Sequence then Inl TypeError
          else if length (y_cells yd) \<noteq> length msk then Inl IndexError
          else Inr (Some (yd\<lparr>y_cells := mask_list msk (y_cells yd)\<rparr>)))"

definition mask_cells :: "string option list \<Rightarrow> bool list \<Rightarrow> error + hover option" where
  "mask_cells vs msk =
     (if length vs \<noteq> length msk then Inl IndexError
      else Inr (Some (HoverArray (mask_list msk vs))))"

definition mask_hovertext :: "hover option \<Rightarrow> bool list \<Rightarrow> error + hover option" where
  "mask_hovertext hf_hovertext msk =
     (case hf_hovertext of
        Some (HoverList vs) \<Rightarrow> mask_cells vs msk
      | Some (HoverArray vs) \<Rightarrow> mask_cells vs msk
      | Some (HoverSeries hi vs) \<Rightarrow> mask_cells vs msk
      | other \<Rightarrow> Inr other)"

text \<open>
  The \<open>try: ... except: pass\<close>: an exception ends the block and is dropped; the
  variables keep what was assigned before it.
\<close>

definition remove_nans ::
    "xdata option \<Rightarrow> ydata option \<Rightarrow> hover option \<Rightarrow> xdata option \<times> ydata option \<times> hover option" where
  "remove_nans hf_x hf_y hf_hovertext =
     (case not_nan_mask hf_y of
        Inl e \<Rightarrow> (hf_x, hf_y, hf_hovertext)
      | Inr nan_values_mask \<Rightarrow>
          (case mask_x hf_x nan_values_mask of
             Inl e \<Rightarrow> (hf_x, hf_y, hf_hovertext)
           | Inr hf_x1 \<Rightarrow>
               (case mask_y hf_y nan_values_mask of
                  Inl e \<Rightarrow> (hf_x1, hf_y, hf_hovertext)
                | Inr hf_y1 \<Rightarrow>
                    (case mask_hovertext hf_hovertext nan_values_mask of
                       Inl e \<Rightarrow> (hf_x1, hf_y1, hf_hovertext)
                     | Inr hf_hovertext1 \<Rightarrow> (hf_x1, hf_y1, hf_hovertext1)))))"

text \<open>
  Lines 439 to 442: a numpy hover text becomes a \<open>pd.Series\<close> over \<open>hf_x\<close>, which
  raises \<open>ValueError\<close> when the lengths differ.
\<close>

definition hovertext_series :: "index \<Rightarrow> hover option \<Rightarrow> error + hover option" where
  "hovertext_series idx hf_hovertext =
     (case hf_hovertext of
        Some (HoverArray vs) \<Rightarrow>
          if length vs \<noteq> index_len idx then Inl ValueError else Inr (Some (HoverSeries idx vs))
      | other \<Rightarrow> Inr other)"

text \<open>\<open>super().add_trace(trace, **trace_kwargs)\<close> appends the trace to the figure's data.\<close>

definition super_add_trace :: "figure_resampler \<Rightarrow> trace \<Rightarrow> figure_resampler" where
  "super_add_trace self trace = self\<lparr>fr_data := fr_data self @ [trace]\<rparr>"

text \<open>\<open>own if arg is None else arg\<close>.\<close>

definition arg_or :: "'a option \<Rightarrow> 'a option \<Rightarrow> 'a option" where
  "arg_or arg own = (case arg of None \<Rightarrow> own | Some v \<Rightarrow> Some v)"

text \<open>
  Lines 406 and 407: \<open>trace["hovertext"]\<close> when it is not \<open>None\<close>, and
  \<open>trace["text"]\<close> otherwise, as the trace hands them back.
\<close>

definition trace_hovertext :: "trace \<Rightarrow> hover option" where
  "trace_hovertext trace = arg_or (present (t_hovertext trace)) (present (t_text trace))"

text \<open>
  Lines 392 to 431: the arguments take priority over the trace's own data, the hover
  text falls back on the trace's \<open>hovertext\<close> and then on its \<open>text\<close>, and the
  NaN block runs on the result.
\<close>

definition cleaned_inputs ::
    "trace \<Rightarrow> xdata option \<Rightarrow> ydata option \<Rightarrow> hover option \<Rightarrow>
     xdata option \<times> ydata option \<times> hover option" where
  "cleaned_inputs trace hf_x hf_y hf_hovertext =
     remove_nans (arg_or hf_x (t_x trace)) (arg_or hf_y (t_y trace))
       (arg_or hf_hovertext (trace_hovertext trace))"

text \<open>Lines 464 and 465.\<close>

definition with_default_name :: "figure_resampler \<Rightarrow> trace \<Rightarrow> trace" where
  "with_default_name self trace =
     (case t_name trace of
        None \<Rightarrow> trace\<lparr>t_name := Some (''trace '' @ str_nat (length (fr_data self)))\<rparr>
      | Some n \<Rightarrow> trace)"

text \<open>Lines 454 and 470 to 478: the entry stored under the trace's uid.\<close>

definition new_entry ::
    "figure_resampler \<Rightarrow> int \<Rightarrow> (series \<Rightarrow> int \<Rightarrow> series) option \<Rightarrow> xdata \<Rightarrow> ydata \<Rightarrow>
     hover option \<Rightarrow> hf_entry" where
  "new_entry self max_n dsampler hf_x yd hf_hovertext =
     \<lparr>max_n_samples = max_n,
      hf_series = \<lparr>s_index = snd hf_x, s_dtype = y_dtype yd, s_values = y_cells yd\<rparr>,
      axis_type = (case hf_x of (Array, DatetimeIndex z ks) \<Rightarrow> DateAxis | _ \<Rightarrow> LinearAxis),
      downsampler = (case dsampler of None \<Rightarrow> global_downsampler self | Some d \<Rightarrow> d),
      e_hovertext = hf_hovertext\<rparr>"

text \<open>
  The branch of the high-frequency trace kinds, from line 392 on, after \<open>max_n_samples\<close>
  and the uid are set. A failure carries the resampler as the exception leaves it.
\<close>

definition add_hf_trace ::
    "figure_resampler \<Rightarrow> string \<Rightarrow> trace \<Rightarrow> int \<Rightarrow> (series \<Rightarrow> int \<Rightarrow> series) option \<Rightarrow> bool \<Rightarrow>
     xdata option \<Rightarrow> ydata option \<Rightarrow> hover option \<Rightarrow>
     (error \<times> figure_resampler) + figure_resampler" where
  "add_hf_trace self uid trace max_n dsampler limit_to_view hf_x_arg hf_y_arg hf_hovertext_arg =
     (let (hf_x, hf_y, hf_hovertext1) = cleaned_inputs trace hf_x_arg hf_y_arg hf_hovertext_arg;
          trace1 = trace\<lparr>t_text := None\<rparr>
      in case hf_x of
           None \<Rightarrow> Inl (TypeError, self)
         | Some (xc, idx) \<Rightarrow>
             if \<not> index_len idx > 0 then Inl (AssertionError, self)
             else
               (case hf_y of
                  None \<Rightarrow> Inl (TypeError, self)
                | Some yd \<Rightarrow>
                    if index_len idx \<noteq> length (y_cells yd) then Inl (AssertionError, self)
                    else
                      (case hovertext_series idx hf_hovertext1 of
                         Inl e \<Rightarrow> Inl (e, self)
                       | Inr hf_hovertext \<Rightarrow>
                           if int (index_len idx) > max_n \<or> limit_to_view then
                             (if \<not> sorted (index_keys idx) then Inl (AssertionError, self)
                              else
                                (let trace2 = with_default_name self trace1;
                                     self1 = self\<lparr>hf_data := (hf_data self)(uid \<mapsto>
                                               new_entry self max_n dsampler (xc, idx) yd
                                                 hf_hovertext)\<rparr>
                                 in case check_update_trace_data self1 trace2 None None of
                                      Inl e \<Rightarrow> Inl (e, self1)
                                    | Inr trace3 \<Rightarrow> Inr (super_add_trace self1 trace3)))
                           else
                             Inr (super_add_trace self
                                    (trace1\<lparr>t_x := hf_x, t_y := hf_y,
                                            t_text := hf_hovertext\<rparr>)))))"

text \<open>
  The other trace kinds, lines 495 to 499. The second assertion is
  \<open>len(trace["x"] == len(trace["y"]))\<close>: \<open>len(trace["y"])\<close> raises on \<open>None\<close>, and the
  comparison of \<open>trace["x"]\<close> with that number is an array of the length of
  \<open>trace["x"]\<close> for an array, and a \<open>bool\<close>, on which \<open>len\<close> raises, for a list or
  tuple.
\<close>

definition add_other_trace ::
    "figure_resampler \<Rightarrow> trace \<Rightarrow> xdata option \<Rightarrow> ydata option \<Rightarrow>
     (error \<times> figure_resampler) + figure_resampler" where
  "add_other_trace self trace hf_x hf_y =
     (let trace1 = trace\<lparr>t_x := arg_or hf_x (t_x trace)\<rparr>;
          trace2 = trace1\<lparr>t_y := arg_or hf_y (t_y trace1)\<rparr>
      in case t_x trace2 of
           None \<Rightarrow> Inl (TypeError, self)
         | Some (xc, idx) \<Rightarrow>
             if \<not> index_len idx > 0 then Inl (AssertionError, self)
             else
               (case t_y trace2 of
                  None \<Rightarrow> Inl (TypeError, self)
                | Some yd \<Rightarrow>
                    if xc = Sequence then Inl (TypeError, self)
                    else Inr (super_add_trace self trace2)))"

text \<open>
  \<open>add_trace\<close>. \<open>uid\<close> is the value of \<open>str(uuid4())\<close>.
\<close>

definition add_trace ::
    "figure_resampler \<Rightarrow> string \<Rightarrow> trace \<Rightarrow> int option \<Rightarrow> (series \<Rightarrow> int \<Rightarrow> series) option \<Rightarrow> bool \<Rightarrow>
     xdata option \<Rightarrow> ydata option \<Rightarrow> hover option \<Rightarrow>
     (error \<times> figure_resampler) + figure_resampler" where
  "add_trace self uid trace max_n_arg dsampler limit_to_view hf_x hf_y hf_hovertext =
     (let max_n = (case max_n_arg of None \<Rightarrow> global_n_shown_samples self | Some m \<Rightarrow> m);
          trace1 = trace\<lparr>t_uid := Some uid\<rparr>
      in if lower (t_type trace1) \<in> set high_frequency_traces
         then add_hf_trace self uid trace1 max_n dsampler limit_to_view hf_x hf_y hf_hovertext
         else add_other_trace self trace1 hf_x hf_y)"

section \<open>A small resampler for concrete runs\<close>

text \<open>
  A downsampler that keeps the first \<open>n_out\<close> samples, an entry of four samples at the
  integer positions 0 to 3 with a budget of two, and a resampler whose prefix and suffix
  are both non-empty.
\<close>

definition take_first :: "series \<Rightarrow> int \<Rightarrow> series" where
  "take_first s n_out = iloc 0 (nat n_out) s"

definition ex_entry :: hf_entry where
  "ex_entry =
     \<lparr>max_n_samples = 2,
      hf_series = \<lparr>s_index = Int64Index [0, 1, 2, 3], s_dtype = Numeric,
                   s_values = [Some 10, Some 11, Some 12, Some 13]\<rparr>,
      axis_type = LinearAxis, downsampler = take_first, e_hovertext = None\<rparr>"

text \<open>
  A second entry with a hover text series, traces to add (arrays, lists, an array of
  positions with a list of values, values of dtype object, unsorted positions, a bar),
  and two figure dicts on two subplots: \<open>ex_figure\<close>, whose first trace names no
  y-axis, and \<open>ex_figure3\<close>, whose traces all name one and whose last trace has no
  entry. \<open>resampler_after\<close> is the resampler as a call of
  \<open>add_trace\<close> leaves it, whether it raised or returned.
\<close>

definition ex_hover_entry :: hf_entry where
  "ex_hover_entry =
     ex_entry\<lparr>e_hovertext := Some (HoverSeries (Int64Index [0, 1, 2, 3])
                                   [Some ''h0'', Some ''h1'', Some ''h2'', Some ''h3''])\<rparr>"

definition ex_resampler :: figure_resampler where
  "ex_resampler =
     \<lparr>hf_data = [''u1'' \<mapsto> ex_entry, ''u2'' \<mapsto> ex_hover_entry], global_n_shown_samples = 1000,
      fr_prefix = ''[R] '', fr_suffix = '' [S]'', global_downsampler = take_first,
      fr_data = []\<rparr>"

definition ex_trace :: trace where
  "ex_trace =
     \<lparr>t_uid = Some ''u1'', t_type = ''scatter'', t_name = Some ''a'', t_x = None,
      t_y = None, t_text = None, t_hovertext = None, t_yaxis = None, t_props = []\<rparr>"

definition ex_scatter :: trace where
  "ex_scatter =
     \<lparr>t_uid = None, t_type = ''scatter'', t_name = None,
      t_x = Some (Array, Int64Index [0, 1, 2]),
      t_y = Some \<lparr>y_container = Array, y_dtype = Numeric, y_cells = [Some 1, None, Some 3]\<rparr>,
      t_text = None, t_hovertext = Some (HoverArray [Some ''p'', Some ''q'', Some ''r'']),
      t_yaxis = None, t_props = []\<rparr>"

definition ex_list_scatter :: trace where
  "ex_list_scatter =
     ex_scatter\<lparr>t_x := Some (Sequence, Int64Index [0, 1, 2]),
                 t_y := Some \<lparr>y_container = Sequence, y_dtype = Numeric,
                              y_cells = [Some 1, None, Some 3]\<rparr>\<rparr>"

definition ex_mixed_scatter :: trace where
  "ex_mixed_scatter =
     ex_scatter\<lparr>t_y := Some \<lparr>y_container = Sequence, y_dtype = Numeric,
                              y_cells = [Some 1, None, Some 3]\<rparr>\<rparr>"

definition ex_object_scatter :: trace where
  "ex_object_scatter =
     ex_scatter\<lparr>t_y := Some \<lparr>y_container = Array, y_dtype = Object,
                              y_cells = [Some 1, None, Some 3]\<rparr>\<rparr>"


definition ex_bar :: trace where
  "ex_bar = ex_scatter\<lparr>t_type := ''bar''\<rparr>"

definition ex_figure :: figure_dict where
  "ex_figure =
     \<lparr>fig_data = [ex_trace, ex_trace\<lparr>t_uid := Some ''u2'', t_yaxis := Some ''y2''\<rparr>],
      fig_layout = [''yaxis'' \<mapsto> Some ''x'', ''yaxis2'' \<mapsto> Some ''x2'']\<rparr>"

definition ex_figure3 :: figure_dict where
  "ex_figure3 =
     \<lparr>fig_data = [ex_trace\<lparr>t_yaxis := Some ''y''\<rparr>,
                  ex_trace\<lparr>t_uid := Some ''u2'', t_yaxis := Some ''y2''\<rparr>,
                  ex_trace\<lparr>t_uid := Some ''u9'', t_yaxis := Some ''y2''\<rparr>],
      fig_layout = [''yaxis'' \<mapsto> Some ''x'', ''yaxis2'' \<mapsto> Some ''x2'']\<rparr>"






definition resampler_after ::
    "(error \<times> figure_resampler) + figure_resampler \<Rightarrow> figure_resampler" where
  "resampler_after r = (case r of Inl (e, self) \<Rightarrow> self | Inr self \<Rightarrow> self)"

section \<open>Timezone normalisation of the slice bounds\<close>


lemma index_keys_len: "length (index_keys idx) = index_len idx"
  by (cases idx) simp_all





section \<open>Name decoration\<close>

lemma decorated_name_startswith: "startswith (decorated_name pre suf name) pre"
  by (auto simp: decorated_name_def startswith_def Let_def)

lemma suffix_append_self: "suffix suf (xs @ suf)"
  by (simp add: suffix_def)

lemma decorated_name_endswith: "endswith (decorated_name pre suf name) suf"
proof -
  let ?name1 = "(if startswith name pre then [] else pre) @ name"
  show ?thesis
  proof (cases "endswith ?name1 suf")
    case True
    then show ?thesis by (simp add: decorated_name_def Let_def)
  next
    case False
    then show ?thesis
      by (simp add: decorated_name_def Let_def endswith_def suffix_append_self
          del: append_assoc)
  qed
qed

lemma decorated_name_idem:
  "decorated_name pre suf (decorated_name pre suf name) = decorated_name pre suf name"
proof -
  have "startswith (decorated_name pre suf name) pre"
    by (rule decorated_name_startswith)
  moreover have "endswith (decorated_name pre suf name) suf"
    by (rule decorated_name_endswith)
  ultimately show ?thesis
    by (simp add: decorated_name_def [of pre suf "decorated_name pre suf name"])
qed

text \<open>
  The stripping branch: with an empty suffix the prefix is dropped; with a non-empty
  suffix that the name ends with, the name written is the name on entry without the
  suffix, whatever the prefix.
\<close>

lemma strip_decoration_prefix_only:
  "pre \<noteq> [] \<Longrightarrow> startswith name pre \<Longrightarrow>
     t_name (strip_decoration pre [] name tr) = Some (drop (length pre) name)"
  by (simp add: strip_decoration_def)

lemma strip_decoration_keeps_prefix:
  "suf \<noteq> [] \<Longrightarrow> endswith name suf \<Longrightarrow>
     t_name (strip_decoration pre suf name tr) = Some (take (length name - length suf) name)"
  by (simp add: strip_decoration_def Let_def)

text \<open>
  C1. With prefix \<open>[R] \<close> and suffix \<open> [S]\<close>, a trace named \<open>a\<close> over the four-sample
  entry (budget two) is named \<open>[R] a [S]\<close> after a sync over the full extent; a sync
  of that trace over the range 0 to 1, whose slice holds one sample, leaves the name
  \<open>[R] a\<close>: the prefix is still there although the length does not exceed the budget.
\<close>

theorem decoration_not_stripped:
  "map_sum id t_name (check_update_trace_data ex_resampler ex_trace None None)
     = Inr (Some ''[R] a [S]'')
   \<and> map_sum id t_name
        (check_update_trace_data ex_resampler (ex_trace\<lparr>t_name := Some ''[R] a [S]''\<rparr>)
           (Some (Num 0)) (Some (Num 1)))
     = Inr (Some ''[R] a'')"
  by code_simp

section \<open>Slicing\<close>

text \<open>
  Rounding goes to a nearest integer. On sorted keys the label slice of the date path
  keeps the keys from the start bound to the end bound, both included; the numeric path
  keeps the keys from the start bound up to, but not including, the end bound.
\<close>

lemma py_round_nearest: "\<bar>r - of_int (py_round r)\<bar> \<le> 1 / 2"
proof -
  define f where "f = \<lfloor>r\<rfloor>"
  have lo: "of_int f \<le> r" and hi: "r < of_int f + 1"
    unfolding f_def by linarith+
  have "py_round r =
      (if r - of_int f < 1 / 2 then f
       else if 1 / 2 < r - of_int f then f + 1 else if even f then f else f + 1)"
    unfolding py_round_def f_def Let_def ..
  with lo hi show ?thesis by (auto simp: abs_if)
qed

lemma py_round_int: "py_round (of_int n) = n"
  by (simp add: py_round_def)

lemma sorted_slice_closed:
  assumes "sorted ks"
  shows "py_slice (searchsorted_left ks a) (searchsorted_right ks b) ks
           = filter (\<lambda>k. a \<le> k \<and> k \<le> b) ks"
  using assms
proof (induction ks)
  case Nil
  show ?case by (simp add: py_slice_def)
next
  case (Cons k ks)
  then have s: "sorted ks" and le: "\<And>x. x \<in> set ks \<Longrightarrow> k \<le> x" by simp_all
  note ih = Cons.IH [OF s]
  show ?case
  proof (cases "k < a")
    case ka: True
    show ?thesis
    proof (cases "k \<le> b")
      case True
      with ka ih show ?thesis
        by (simp add: py_slice_def searchsorted_left_def searchsorted_right_def)
    next
      case False
      with le have "filter (\<lambda>x. a \<le> x \<and> x \<le> b) ks = []"
        by (fastforce simp: filter_empty_conv)
      with False ka show ?thesis
        by (simp add: py_slice_def searchsorted_left_def searchsorted_right_def)
    qed
  next
    case ka: False
    with le have all: "\<And>x. x \<in> set ks \<Longrightarrow> a \<le> x" by fastforce
    then have tl0: "takeWhile (\<lambda>x. x < a) ks = []"
      by (cases ks) (auto simp: not_less)
    have f: "filter (\<lambda>x. a \<le> x \<and> x \<le> b) ks = filter (\<lambda>x. x \<le> b) ks"
      using all by (auto intro: filter_cong)
    from ih tl0 have ih': "take (length (takeWhile (\<lambda>x. x \<le> b) ks)) ks = filter (\<lambda>x. x \<le> b) ks"
      by (simp add: py_slice_def searchsorted_left_def searchsorted_right_def f)
    show ?thesis
    proof (cases "k \<le> b")
      case True
      with ka ih' f show ?thesis
        by (simp add: py_slice_def searchsorted_left_def searchsorted_right_def)
    next
      case False
      with le have "filter (\<lambda>x. a \<le> x \<and> x \<le> b) ks = []"
        by (fastforce simp: filter_empty_conv)
      with False ka show ?thesis
        by (simp add: py_slice_def searchsorted_left_def searchsorted_right_def)
    qed
  qed
qed

lemma sorted_slice_half_open:
  assumes "sorted ks"
  shows "py_slice (searchsorted_left ks a) (searchsorted_left ks b) ks
           = filter (\<lambda>k. a \<le> k \<and> k < b) ks"
  using assms
proof (induction ks)
  case Nil
  show ?case by (simp add: py_slice_def)
next
  case (Cons k ks)
  then have s: "sorted ks" and le: "\<And>x. x \<in> set ks \<Longrightarrow> k \<le> x" by simp_all
  note ih = Cons.IH [OF s]
  show ?case
  proof (cases "k < a")
    case ka: True
    show ?thesis
    proof (cases "k < b")
      case True
      with ka ih show ?thesis
        by (simp add: py_slice_def searchsorted_left_def)
    next
      case False
      with le have "filter (\<lambda>x. a \<le> x \<and> x < b) ks = []"
        by (fastforce simp: filter_empty_conv)
      with False ka show ?thesis
        by (simp add: py_slice_def searchsorted_left_def)
    qed
  next
    case ka: False
    with le have all: "\<And>x. x \<in> set ks \<Longrightarrow> a \<le> x" by fastforce
    then have tl0: "takeWhile (\<lambda>x. x < a) ks = []"
      by (cases ks) (auto simp: not_less)
    have f: "filter (\<lambda>x. a \<le> x \<and> x < b) ks = filter (\<lambda>x. x < b) ks"
      using all by (auto intro: filter_cong)
    from ih tl0 have ih': "take (length (takeWhile (\<lambda>x. x < b) ks)) ks = filter (\<lambda>x. x < b) ks"
      by (simp add: py_slice_def searchsorted_left_def f)
    show ?thesis
    proof (cases "k < b")
      case True
      with ka ih' f show ?thesis
        by (simp add: py_slice_def searchsorted_left_def)
    next
      case False
      with le have "filter (\<lambda>x. a \<le> x \<and> x < b) ks = []"
        by (fastforce simp: filter_empty_conv)
      with False ka show ?thesis
        by (simp add: py_slice_def searchsorted_left_def)
    qed
  qed
qed

lemma index_keys_iloc: "index_keys (index_iloc i j idx) = py_slice i j (index_keys idx)"
  by (cases idx) (simp_all add: py_slice_def take_map drop_map)

lemma label_slice_closed:
  assumes "s_index s = DatetimeIndex z vs" and "sorted (index_keys (s_index s))"
      and "(z = None) = (tz a = None)" and "(z = None) = (tz b = None)"
  shows "\<exists>sl. label_slice s (Some a) (Some b) = Inr sl
           \<and> index_keys (s_index sl)
               = filter (\<lambda>k. of_int (ts_value a) \<le> k \<and> k \<le> of_int (ts_value b))
                   (index_keys (s_index s))"
proof -
  let ?ks = "index_keys (s_index s)"
  have "label_slice s (Some a) (Some b)
          = Inr (iloc (searchsorted_left ?ks (of_int (ts_value a)))
                   (searchsorted_right ?ks (of_int (ts_value b))) s)"
    using assms(1,3,4) by (simp add: label_slice_def label_key_def Let_def)
  moreover have "index_keys (s_index (iloc i j s)) = py_slice i j ?ks" for i j
    by (simp add: iloc_def index_keys_iloc)
  ultimately show ?thesis
    using sorted_slice_closed [OF assms(2)] by simp
qed

lemma slice_linear_half_open:
  assumes "sorted (index_keys (s_index s))"
  shows "\<exists>sl. slice_linear s (Some (Num a)) (Some (Num b)) = Inr sl
           \<and> index_keys (s_index sl)
               = filter (\<lambda>k. round_bound (s_index s) a \<le> k \<and> k < round_bound (s_index s) b)
                   (index_keys (s_index s))"
  using sorted_slice_half_open [OF assms]
  by (simp add: slice_linear_def linear_bound_def Let_def iloc_def index_keys_iloc)

text \<open>
  C4. On the numeric axis the sample at the end bound is left out: the four-sample
  entry sliced with no bounds gives the positions 0, 1, 2, and sliced from 1 to 2 gives
  position 1 only. The same keys on a date axis, sliced from 1 to 2, give both 1 and 2.
\<close>

theorem numeric_slice_excludes_end:
  "map_sum id series_pairs (slice_entry ex_entry None None)
     = Inr [(0, Some 10), (1, Some 11), (2, Some 12)]
   \<and> map_sum id series_pairs (slice_entry ex_entry (Some (Num 1)) (Some (Num 2)))
     = Inr [(1, Some 11)]
   \<and> map_sum id series_pairs
        (slice_entry
           (ex_entry\<lparr>axis_type := DateAxis,
              hf_series := (hf_series ex_entry)\<lparr>s_index := DatetimeIndex None [0, 1, 2, 3]\<rparr>\<rparr>)
           (Some (Time \<lparr>ts_value = 1, tz = None\<rparr>)) (Some (Time \<lparr>ts_value = 2, tz = None\<rparr>)))
     = Inr [(1, Some 11), (2, Some 12)]"
  by code_simp

section \<open>Repeated synchronisation\<close>

text \<open>
  C8. With prefix \<open>[R] \<close> and suffix \<open> [S]\<close>, a sync over the range 0 to 1 of the
  trace named \<open>[R] a [S]\<close> names it \<open>[R] a\<close>, and the same sync applied to that
  result names it \<open>a\<close>: the second application changes the trace again.
\<close>

theorem sync_twice_differs:
  "map_sum id t_name
        (check_update_trace_data ex_resampler (ex_trace\<lparr>t_name := Some ''[R] a [S]''\<rparr>)
           (Some (Num 0)) (Some (Num 1)))
     = Inr (Some ''[R] a'')
   \<and> map_sum id t_name
        (check_update_trace_data ex_resampler (ex_trace\<lparr>t_name := Some ''[R] a''\<rparr>)
           (Some (Num 0)) (Some (Num 1)))
     = Inr (Some ''a'')"
  by code_simp

section \<open>Write-back of a synchronisation\<close>








section \<open>Admission\<close>

lemma returned_resampler:
  "(case r of Inl x \<Rightarrow> False | Inr s \<Rightarrow> True) \<Longrightarrow> r = Inr (resampler_after r)"
  by (cases r) (simp_all add: resampler_after_def)

lemma stored_entry:
  "(case m of None \<Rightarrow> False | Some e \<Rightarrow> True) \<Longrightarrow> m = Some (the m)"
  by (cases m) simp_all




lemma cleaned_inputs_uid [simp]:
  "cleaned_inputs (trace\<lparr>t_uid := u\<rparr>) hx hy hh = cleaned_inputs trace hx hy hh"
  by (simp add: cleaned_inputs_def trace_hovertext_def)

lemma add_hf_trace_Inr:
  assumes "add_hf_trace self uid trace max_n ds ltv hx hy hh = Inr self'"
  shows "\<exists>xc idx yd h1 h.
           cleaned_inputs trace hx hy hh = (Some (xc, idx), Some yd, h1)
         \<and> 0 < index_len idx \<and> index_len idx = length (y_cells yd)
         \<and> hovertext_series idx h1 = Inr h
         \<and> (if max_n < int (index_len idx) \<or> ltv
            then sorted (index_keys idx)
               \<and> (\<exists>t3. check_update_trace_data
                          (self\<lparr>hf_data := (hf_data self)(uid \<mapsto>
                                    new_entry self max_n ds (xc, idx) yd h)\<rparr>)
                          (with_default_name self (trace\<lparr>t_text := None\<rparr>)) None None = Inr t3
                      \<and> self' = super_add_trace
                          (self\<lparr>hf_data := (hf_data self)(uid \<mapsto>
                                    new_entry self max_n ds (xc, idx) yd h)\<rparr>) t3)
            else self' = super_add_trace self
                   (trace\<lparr>t_x := Some (xc, idx), t_y := Some yd, t_text := h\<rparr>))"
proof -
  obtain a b c where ci: "cleaned_inputs trace hx hy hh = (a, b, c)"
    by (cases "cleaned_inputs trace hx hy hh") auto
  from assms ci obtain xc idx where a: "a = Some (xc, idx)"
    by (cases a) (auto simp: add_hf_trace_def Let_def)
  from assms ci a have pos: "0 < index_len idx"
    by (auto simp: add_hf_trace_def Let_def split: if_splits)
  from assms ci a pos obtain yd where b: "b = Some yd"
    by (cases b) (auto simp: add_hf_trace_def Let_def)
  from assms ci a pos b have len: "index_len idx = length (y_cells yd)"
    by (auto simp: add_hf_trace_def Let_def split: if_splits)
  from assms ci a pos b len obtain h where h: "hovertext_series idx c = Inr h"
    by (cases "hovertext_series idx c") (auto simp: add_hf_trace_def Let_def)
  from assms ci a pos b len h show ?thesis
    by (auto simp: add_hf_trace_def Let_def split: if_splits sum.splits)
qed

lemma add_other_trace_Inr:
  assumes "add_other_trace self trace hx hy = Inr self'"
  shows "self' = super_add_trace self (trace\<lparr>t_x := arg_or hx (t_x trace), t_y := arg_or hy (t_y trace)\<rparr>)"
  using assms
  by (auto simp: add_other_trace_def Let_def split: option.splits prod.splits if_splits)

lemma add_other_trace_store:
  "add_other_trace self trace hx hy = Inl (e, self') \<Longrightarrow> self' = self"
  by (auto simp: add_other_trace_def Let_def split: option.splits prod.splits if_splits)

lemma add_trace_Inr:
  assumes ok: "add_trace self uid trace max_n_arg ds ltv hx hy hh = Inr self'"
  shows "(lower (t_type trace) \<in> set high_frequency_traces \<longrightarrow>
           (\<exists>xc idx yd h1 h.
              cleaned_inputs trace hx hy hh = (Some (xc, idx), Some yd, h1)
            \<and> hovertext_series idx h1 = Inr h
            \<and> (let max_n = (case max_n_arg of None \<Rightarrow> global_n_shown_samples self | Some m \<Rightarrow> m);
                    self1 = self\<lparr>hf_data := (hf_data self)(uid \<mapsto>
                                    new_entry self max_n ds (xc, idx) yd h)\<rparr>
                in if max_n < int (index_len idx) \<or> ltv
                   then (\<exists>t3. check_update_trace_data self1
                                (with_default_name self (trace\<lparr>t_uid := Some uid, t_text := None\<rparr>))
                                None None = Inr t3
                            \<and> hf_data self' = hf_data self1
                            \<and> fr_data self' = fr_data self @ [t3])
                   else hf_data self' = hf_data self
                      \<and> fr_data self' = fr_data self @
                           [trace\<lparr>t_uid := Some uid, t_x := Some (xc, idx), t_y := Some yd,
                                   t_text := h\<rparr>])))
       \<and> (lower (t_type trace) \<notin> set high_frequency_traces \<longrightarrow>
             hf_data self' = hf_data self
           \<and> fr_data self' = fr_data self @
                [trace\<lparr>t_uid := Some uid, t_x := arg_or hx (t_x trace),
                        t_y := arg_or hy (t_y trace)\<rparr>])"
proof (cases "lower (t_type trace) \<in> set high_frequency_traces")
  case True
  let ?max_n = "case max_n_arg of None \<Rightarrow> global_n_shown_samples self | Some m \<Rightarrow> m"
  from ok True have
    "add_hf_trace self uid (trace\<lparr>t_uid := Some uid\<rparr>) ?max_n ds ltv hx hy hh = Inr self'"
    by (simp add: add_trace_def Let_def)
  from add_hf_trace_Inr [OF this] obtain xc idx yd h1 h where
    ci: "cleaned_inputs trace hx hy hh = (Some (xc, idx), Some yd, h1)" and
    hs: "hovertext_series idx h1 = Inr h" and
    br: "if ?max_n < int (index_len idx) \<or> ltv
         then sorted (index_keys idx)
            \<and> (\<exists>t3. check_update_trace_data
                       (self\<lparr>hf_data := (hf_data self)(uid \<mapsto>
                                 new_entry self ?max_n ds (xc, idx) yd h)\<rparr>)
                       (with_default_name self (trace\<lparr>t_uid := Some uid, t_text := None\<rparr>))
                       None None = Inr t3
                   \<and> self' = super_add_trace
                       (self\<lparr>hf_data := (hf_data self)(uid \<mapsto>
                                 new_entry self ?max_n ds (xc, idx) yd h)\<rparr>) t3)
         else self' = super_add_trace self
                (trace\<lparr>t_uid := Some uid, t_x := Some (xc, idx), t_y := Some yd, t_text := h\<rparr>)"
    by auto
  show ?thesis
  proof (cases "?max_n < int (index_len idx) \<or> ltv")
    case c: True
    with br obtain t3 where
      "check_update_trace_data
         (self\<lparr>hf_data := (hf_data self)(uid \<mapsto> new_entry self ?max_n ds (xc, idx) yd h)\<rparr>)
         (with_default_name self (trace\<lparr>t_uid := Some uid, t_text := None\<rparr>)) None None = Inr t3"
      "self' = super_add_trace
         (self\<lparr>hf_data := (hf_data self)(uid \<mapsto> new_entry self ?max_n ds (xc, idx) yd h)\<rparr>) t3"
      by auto
    with True ci hs c show ?thesis
      by (auto simp: Let_def super_add_trace_def)
  next
    case c: False
    with br have "self' = super_add_trace self
        (trace\<lparr>t_uid := Some uid, t_x := Some (xc, idx), t_y := Some yd, t_text := h\<rparr>)"
      by simp
    with True ci hs c show ?thesis
      by (auto simp: Let_def super_add_trace_def)
  qed
next
  case False
  from ok False have
    "add_other_trace self (trace\<lparr>t_uid := Some uid\<rparr>) hx hy = Inr self'"
    by (simp add: add_trace_def Let_def)
  from add_other_trace_Inr [OF this] False show ?thesis
    by (simp add: super_add_trace_def)
qed


text \<open>
  C2. When \<open>add_trace\<close> returns: for a scatter or scattergl trace, an entry is stored
  under the new uid and the trace appended is the result of the synchroniser called with
  no bounds, if and only if the length after the NaN block exceeds \<open>max_n_samples\<close> or
  \<open>limit_to_view\<close> is set; otherwise the store is as before and the trace is appended
  with the data after the NaN block, the hover text in \<open>text\<close>, and the new uid. For
  any other trace kind the store is as before and the trace is appended with the new uid
  and with \<open>hf_x\<close>, \<open>hf_y\<close> merged into \<open>x\<close> and \<open>y\<close>.
\<close>

theorem add_trace_admission:
  assumes ok: "add_trace self uid trace max_n_arg ds ltv hx hy hh = Inr self'"
  shows "(lower (t_type trace) \<in> set high_frequency_traces \<longrightarrow>
           (\<exists>xc idx yd h1 h.
              cleaned_inputs trace hx hy hh = (Some (xc, idx), Some yd, h1)
            \<and> hovertext_series idx h1 = Inr h
            \<and> (let max_n = (case max_n_arg of None \<Rightarrow> global_n_shown_samples self | Some m \<Rightarrow> m);
                    self1 = self\<lparr>hf_data := (hf_data self)(uid \<mapsto>
                                    new_entry self max_n ds (xc, idx) yd h)\<rparr>
                in if max_n < int (index_len idx) \<or> ltv
                   then (\<exists>t3. check_update_trace_data self1
                                (with_default_name self (trace\<lparr>t_uid := Some uid, t_text := None\<rparr>))
                                None None = Inr t3
                            \<and> hf_data self' = hf_data self1
                            \<and> fr_data self' = fr_data self @ [t3])
                   else hf_data self' = hf_data self
                      \<and> fr_data self' = fr_data self @
                           [trace\<lparr>t_uid := Some uid, t_x := Some (xc, idx), t_y := Some yd,
                                   t_text := h\<rparr>])))
       \<and> (lower (t_type trace) \<notin> set high_frequency_traces \<longrightarrow>
             hf_data self' = hf_data self
           \<and> fr_data self' = fr_data self @
                [trace\<lparr>t_uid := Some uid, t_x := arg_or hx (t_x trace),
                        t_y := arg_or hy (t_y trace)\<rparr>])"
  using ok by (rule add_trace_Inr)

theorem add_trace_admission_witness:
  "lower (t_type ex_scatter) \<in> set high_frequency_traces
   \<and> (\<exists>xc idx yd h1 h t3.
         cleaned_inputs ex_scatter None None None = (Some (xc, idx), Some yd, h1)
       \<and> hovertext_series idx h1 = Inr h
       \<and> check_update_trace_data
           (ex_resampler\<lparr>hf_data := (hf_data ex_resampler)(''u3'' \<mapsto>
               new_entry ex_resampler (global_n_shown_samples ex_resampler) None (xc, idx) yd h)\<rparr>)
           (with_default_name ex_resampler (ex_scatter\<lparr>t_uid := Some ''u3'', t_text := None\<rparr>))
           None None = Inr t3
       \<and> fr_data (resampler_after
             (add_trace ex_resampler ''u3'' ex_scatter None None True None None None))
           = fr_data ex_resampler @ [t3])"
proof -
  let ?r = "add_trace ex_resampler ''u3'' ex_scatter None None True None None None"
  have "case ?r of Inl x \<Rightarrow> False | Inr s \<Rightarrow> True" by code_simp
  then have ok: "?r = Inr (resampler_after ?r)" by (rule returned_resampler)
  have hf: "lower (t_type ex_scatter) \<in> set high_frequency_traces" by code_simp
  from add_trace_admission [OF ok] hf show ?thesis
    by (auto simp: Let_def)
qed

text \<open>
  A bar trace is appended with the new uid, so it is not the trace that was passed.
\<close>

theorem add_trace_changes_uid:
  "map_sum fst fr_data (add_trace ex_resampler ''u3'' ex_bar None None False None None None)
     = Inr [ex_bar\<lparr>t_uid := Some ''u3''\<rparr>]
   \<and> ex_bar\<lparr>t_uid := Some ''u3''\<rparr> \<noteq> ex_bar"
  by code_simp

lemma add_trace_stored:
  assumes hf: "lower (t_type trace) \<in> set high_frequency_traces"
      and fresh: "hf_data self uid = None"
      and ok: "add_trace self uid trace max_n_arg ds ltv hx hy hh = Inr self'"
      and st: "hf_data self' uid = Some e"
  shows "\<exists>xc idx yd h1 h.
           cleaned_inputs trace hx hy hh = (Some (xc, idx), Some yd, h1)
         \<and> hovertext_series idx h1 = Inr h
         \<and> e = new_entry self (case max_n_arg of None \<Rightarrow> global_n_shown_samples self | Some m \<Rightarrow> m)
                 ds (xc, idx) yd h"
proof -
  let ?max_n = "case max_n_arg of None \<Rightarrow> global_n_shown_samples self | Some m \<Rightarrow> m"
  from add_trace_Inr [OF ok] hf obtain xc idx yd h1 h where
    ci: "cleaned_inputs trace hx hy hh = (Some (xc, idx), Some yd, h1)" and
    hs: "hovertext_series idx h1 = Inr h" and
    br: "if ?max_n < int (index_len idx) \<or> ltv
         then hf_data self' = (hf_data self)(uid \<mapsto> new_entry self ?max_n ds (xc, idx) yd h)
         else hf_data self' = hf_data self"
    by (auto simp: Let_def split: if_splits)
  from br fresh st have "e = new_entry self ?max_n ds (xc, idx) yd h"
    by (auto split: if_splits)
  with ci hs show ?thesis by blast
qed

lemma mask_list_Nil [simp]: "mask_list ms [] = []" "mask_list [] xs = []"
  by (simp_all add: mask_list_def)

lemma mask_list_Cons [simp]:
  "mask_list (m # ms) (x # xs) = (if m then x # mask_list ms xs else mask_list ms xs)"
  by (simp add: mask_list_def)

lemma mask_list_map: "mask_list ms (map f xs) = map f (mask_list ms xs)"
proof (induction xs arbitrary: ms)
  case Nil
  show ?case by simp
next
  case (Cons x xs)
  then show ?case by (cases ms) simp_all
qed

lemma index_keys_mask: "index_keys (index_mask ms idx) = mask_list ms (index_keys idx)"
  by (cases idx) (simp_all add: mask_list_map)

lemma index_len_keys: "index_len idx = length (index_keys idx)"
  by (cases idx) simp_all

lemma zip_mask_list:
  "length xs = length cs \<Longrightarrow>
     zip (mask_list (map P cs) xs) (mask_list (map P cs) cs) = filter (\<lambda>kv. P (snd kv)) (zip xs cs)"
  by (induction xs cs rule: list_induct2) simp_all

lemma remove_nans_arrays:
  assumes "y_container yd = Array" "y_dtype yd = Numeric" "index_len idx = length (y_cells yd)"
  shows "\<exists>h'. remove_nans (Some (Array, idx)) (Some yd) h =
           (Some (Array, index_mask (map (\<lambda>c. c \<noteq> None) (y_cells yd)) idx),
            Some (yd\<lparr>y_cells := mask_list (map (\<lambda>c. c \<noteq> None) (y_cells yd)) (y_cells yd)\<rparr>), h')
         \<and> (case mask_hovertext h (map (\<lambda>c. c \<noteq> None) (y_cells yd)) of
               Inl e \<Rightarrow> h' = h | Inr m \<Rightarrow> h' = m)"
  using assms
  by (simp add: remove_nans_def not_nan_mask_def mask_x_def mask_y_def split: sum.splits)

lemma mask_list_zip:
  "length cs = length vs \<Longrightarrow>
     mask_list (map P cs) vs = map snd (filter (\<lambda>cv. P (fst cv)) (zip cs vs))"
  by (induction cs vs rule: list_induct2) simp_all

lemma mask_hovertext_cells:
  assumes "h = Some (HoverList vs) \<or> h = Some (HoverArray vs) \<or> (\<exists>hi. h = Some (HoverSeries hi vs))"
      and "length vs = length msk"
  shows "mask_hovertext h msk = Inr (Some (HoverArray (mask_list msk vs)))"
  using assms by (auto simp: mask_hovertext_def mask_cells_def)

text \<open>
  Arrays. For a scatter or scattergl trace whose positions and values are arrays of the
  same length, the values numeric: when \<open>add_trace\<close> returns and has stored an entry
  under the new uid, the entry's series holds exactly the (position, value) pairs of the
  input whose value is not NaN, in order; and a hover text that reaches the NaN block as
  a list, array or series of that length is stored as a series over the entry's index
  that holds exactly the cells standing at the values that are not NaN.
\<close>

lemma nan_removal_for_arrays:
  assumes hf: "lower (t_type trace) \<in> set high_frequency_traces"
      and x: "arg_or hx (t_x trace) = Some (Array, idx)"
      and y: "arg_or hy (t_y trace) = Some yd"
      and arr: "y_container yd = Array" and num: "y_dtype yd = Numeric"
      and len: "index_len idx = length (y_cells yd)"
      and fresh: "hf_data self uid = None"
      and ok: "add_trace self uid trace max_n_arg ds ltv hx hy hh = Inr self'"
      and st: "hf_data self' uid = Some e"
  shows "series_pairs (hf_series e)
           = filter (\<lambda>kv. snd kv \<noteq> None) (zip (index_keys idx) (y_cells yd))
       \<and> (\<forall>vs. (arg_or hh (trace_hovertext trace) = Some (HoverList vs)
                \<or> arg_or hh (trace_hovertext trace) = Some (HoverArray vs)
                \<or> (\<exists>hi. arg_or hh (trace_hovertext trace)
                            = Some (HoverSeries hi vs)))
               \<and> length vs = length (y_cells yd) \<longrightarrow>
             e_hovertext e = Some (HoverSeries (s_index (hf_series e))
                (map snd (filter (\<lambda>cv. fst cv \<noteq> None) (zip (y_cells yd) vs)))))"
proof -
  let ?m = "map (\<lambda>c. c \<noteq> None) (y_cells yd)"
  let ?h = "arg_or hh (trace_hovertext trace)"
  from remove_nans_arrays [OF arr num len, of ?h] x y obtain h' where
    ci: "cleaned_inputs trace hx hy hh =
           (Some (Array, index_mask ?m idx), Some (yd\<lparr>y_cells := mask_list ?m (y_cells yd)\<rparr>), h')"
    and h': "case mask_hovertext ?h ?m of Inl e \<Rightarrow> h' = ?h | Inr m \<Rightarrow> h' = m"
    by (auto simp: cleaned_inputs_def)
  from add_trace_stored [OF hf fresh ok st] ci obtain h where
    hs: "hovertext_series (index_mask ?m idx) h' = Inr h" and
    e: "e = new_entry self (case max_n_arg of None \<Rightarrow> global_n_shown_samples self | Some m \<Rightarrow> m)
           ds (Array, index_mask ?m idx) (yd\<lparr>y_cells := mask_list ?m (y_cells yd)\<rparr>) h"
    by auto
  from e have "series_pairs (hf_series e)
      = zip (mask_list ?m (index_keys idx)) (mask_list ?m (y_cells yd))"
    by (simp add: new_entry_def series_pairs_def index_keys_mask)
  also have "\<dots> = filter (\<lambda>kv. snd kv \<noteq> None) (zip (index_keys idx) (y_cells yd))"
    using len by (simp add: zip_mask_list index_len_keys)
  finally have pairs: "series_pairs (hf_series e)
           = filter (\<lambda>kv. snd kv \<noteq> None) (zip (index_keys idx) (y_cells yd))" .
  have hover: "e_hovertext e = Some (HoverSeries (s_index (hf_series e))
                (map snd (filter (\<lambda>cv. fst cv \<noteq> None) (zip (y_cells yd) vs))))"
    if v: "?h = Some (HoverList vs) \<or> ?h = Some (HoverArray vs) \<or> (\<exists>hi. ?h = Some (HoverSeries hi vs))"
      and l: "length vs = length (y_cells yd)" for vs
  proof -
    from l have "length vs = length ?m" by simp
    from mask_hovertext_cells [OF v this] h'
    have "h' = Some (HoverArray (mask_list ?m vs))" by simp
    with hs have "h = Some (HoverSeries (index_mask ?m idx) (mask_list ?m vs))"
      by (auto simp: hovertext_series_def split: if_splits)
    moreover have "mask_list ?m vs = map snd (filter (\<lambda>cv. fst cv \<noteq> None) (zip (y_cells yd) vs))"
      using l by (simp add: mask_list_zip)
    ultimately show ?thesis using e by (simp add: new_entry_def)
  qed
  from pairs hover show ?thesis by blast
qed

lemma nan_removal_for_arrays_example:
  "series_pairs (hf_series (the (hf_data (resampler_after
       (add_trace ex_resampler ''u3'' ex_scatter None None True None None None)) ''u3'')))
     = [(0, Some 1), (2, Some 3)]
   \<and> e_hovertext (the (hf_data (resampler_after
       (add_trace ex_resampler ''u3'' ex_scatter None None True None None None)) ''u3''))
     = Some (HoverSeries
         (s_index (hf_series (the (hf_data (resampler_after
            (add_trace ex_resampler ''u3'' ex_scatter None None True None None None)) ''u3''))))
         [Some ''p'', Some ''r''])"
proof -
  let ?r = "add_trace ex_resampler ''u3'' ex_scatter None None True None None None"
  let ?yd = "\<lparr>y_container = Array, y_dtype = Numeric, y_cells = [Some 1, None, Some 3]\<rparr>"
  let ?vs = "[Some ''p'', Some ''q'', Some ''r'']"
  have "case ?r of Inl x \<Rightarrow> False | Inr s \<Rightarrow> True" by code_simp
  then have ok: "?r = Inr (resampler_after ?r)" by (rule returned_resampler)
  have "case hf_data (resampler_after ?r) ''u3'' of None \<Rightarrow> False | Some e \<Rightarrow> True"
    by code_simp
  then have st: "hf_data (resampler_after ?r) ''u3'' = Some (the (hf_data (resampler_after ?r) ''u3''))"
    by (rule stored_entry)
  have hf: "lower (t_type ex_scatter) \<in> set high_frequency_traces" by code_simp
  have x: "arg_or None (t_x ex_scatter) = Some (Array, Int64Index [0, 1, 2])"
    by (simp add: arg_or_def trace_hovertext_def present_def ex_scatter_def)
  have y: "arg_or None (t_y ex_scatter) = Some ?yd"
    by (simp add: arg_or_def trace_hovertext_def present_def ex_scatter_def)
  have h: "arg_or None (trace_hovertext ex_scatter) = Some (HoverArray ?vs)"
    by (simp add: arg_or_def trace_hovertext_def present_def ex_scatter_def)
  have fresh: "hf_data ex_resampler ''u3'' = None"
    by (simp add: ex_resampler_def)
  from nan_removal_for_arrays [OF hf x y _ _ _ fresh ok st] h
  show ?thesis by simp
qed

text \<open>
  C5. The values 1, NaN, 3 at the positions 0, 1, 2, given as lists, which the trace
  hands back as tuples, and admitted with \<open>limit_to_view\<close>: the mask is computed, the
  indexing of the positions with it raises inside the \<open>try\<close>, and the entry's
  series is stored with all three pairs, the NaN among them. With the positions an array
  and the values a list, the positions are masked and the values are not, and the
  admission fails on the assertion that the two lengths agree.
\<close>

theorem nan_kept_for_lists:
  "(case add_trace ex_resampler ''u3'' ex_list_scatter None None True None None None of
      Inl x \<Rightarrow> False | Inr s \<Rightarrow> True)
   \<and> map_option (\<lambda>e. series_pairs (hf_series e))
        (hf_data (resampler_after
           (add_trace ex_resampler ''u3'' ex_list_scatter None None True None None None)) ''u3'')
     = Some [(0, Some 1), (1, None), (2, Some 3)]
   \<and> map_sum fst (\<lambda>s. ())
        (add_trace ex_resampler ''u3'' ex_mixed_scatter None None True None None None)
     = Inl AssertionError"
  by code_simp

text \<open>
  C10. When \<open>np.isnan\<close> raises on \<open>hf_y\<close> (dtype object), the NaN block changes
  nothing and raises nothing: positions, values and hover text leave it as they entered,
  and an entry stored by \<open>add_trace\<close> holds the values and positions unchanged, NaN
  included.
\<close>

theorem nan_removal_skipped:
  assumes y: "arg_or hy (t_y trace) = Some yd" and obj: "y_dtype yd = Object"
  shows "cleaned_inputs trace hx hy hh
           = (arg_or hx (t_x trace), Some yd, arg_or hh (trace_hovertext trace))
       \<and> (\<forall>self' e. lower (t_type trace) \<in> set high_frequency_traces \<and> hf_data self uid = None
             \<and> add_trace self uid trace max_n_arg ds ltv hx hy hh = Inr self'
             \<and> hf_data self' uid = Some e \<longrightarrow>
             s_values (hf_series e) = y_cells yd
           \<and> (\<exists>c. arg_or hx (t_x trace) = Some (c, s_index (hf_series e))))"
proof -
  have ci: "cleaned_inputs trace hx hy hh
           = (arg_or hx (t_x trace), Some yd, arg_or hh (trace_hovertext trace))"
    using y obj by (simp add: cleaned_inputs_def remove_nans_def not_nan_mask_def)
  show ?thesis
  proof (intro conjI allI impI)
    show "cleaned_inputs trace hx hy hh
           = (arg_or hx (t_x trace), Some yd, arg_or hh (trace_hovertext trace))"
      by (rule ci)
  next
    fix self' e
    assume a: "lower (t_type trace) \<in> set high_frequency_traces \<and> hf_data self uid = None
             \<and> add_trace self uid trace max_n_arg ds ltv hx hy hh = Inr self'
             \<and> hf_data self' uid = Some e"
    then have hf: "lower (t_type trace) \<in> set high_frequency_traces"
      and fresh: "hf_data self uid = None"
      and ok: "add_trace self uid trace max_n_arg ds ltv hx hy hh = Inr self'"
      and st: "hf_data self' uid = Some e" by simp_all
    from add_trace_stored [OF hf fresh ok st] ci
    show "s_values (hf_series e) = y_cells yd" and "\<exists>c. arg_or hx (t_x trace) = Some (c, s_index (hf_series e))"
      by (auto simp: new_entry_def)
  qed
qed

theorem nan_removal_skipped_witness:
  "cleaned_inputs ex_object_scatter None None None
     = (Some (Array, Int64Index [0, 1, 2]),
        Some \<lparr>y_container = Array, y_dtype = Object, y_cells = [Some 1, None, Some 3]\<rparr>,
        Some (HoverArray [Some ''p'', Some ''q'', Some ''r'']))
   \<and> s_values (hf_series (the (hf_data (resampler_after
        (add_trace ex_resampler ''u3'' ex_object_scatter None None True None None None)) ''u3'')))
     = [Some 1, None, Some 3]"
proof -
  let ?r = "add_trace ex_resampler ''u3'' ex_object_scatter None None True None None None"
  let ?yd = "\<lparr>y_container = Array, y_dtype = Object, y_cells = [Some 1, None, Some 3]\<rparr>"
  have "case ?r of Inl x \<Rightarrow> False | Inr s \<Rightarrow> True" by code_simp
  then have ok: "?r = Inr (resampler_after ?r)" by (rule returned_resampler)
  have "case hf_data (resampler_after ?r) ''u3'' of None \<Rightarrow> False | Some e \<Rightarrow> True"
    by code_simp
  then have st: "hf_data (resampler_after ?r) ''u3'' = Some (the (hf_data (resampler_after ?r) ''u3''))"
    by (rule stored_entry)
  have hf: "lower (t_type ex_object_scatter) \<in> set high_frequency_traces" by code_simp
  have y: "arg_or None (t_y ex_object_scatter) = Some ?yd"
    by (simp add: arg_or_def ex_object_scatter_def ex_scatter_def)
  have obj: "y_dtype ?yd = Object" by simp
  have fresh: "hf_data ex_resampler ''u3'' = None"
    by (simp add: ex_resampler_def)
  have f: "arg_or None (t_x ex_object_scatter) = Some (Array, Int64Index [0, 1, 2])"
    "arg_or None (trace_hovertext ex_object_scatter)
       = Some (HoverArray [Some ''p'', Some ''q'', Some ''r''])"
    by (simp_all add: arg_or_def trace_hovertext_def present_def ex_object_scatter_def ex_scatter_def)
  from nan_removal_skipped [OF y obj, where hx = None and hh = None and self = ex_resampler
      and uid = "''u3''" and max_n_arg = None and ds = None and ltv = True]
    hf fresh ok st f
  show ?thesis by auto
qed





section \<open>Batch synchronisation\<close>


lemma update_traces_nth:
  "update_traces self layout start stop xf ts = Inr ts' \<Longrightarrow>
     length ts' = length ts
   \<and> (\<forall>i<length ts. \<exists>sel. trace_selected layout xf (ts ! i) = Inr sel
          \<and> (if sel then check_update_trace_data self (ts ! i) start stop = Inr (ts' ! i)
              else ts' ! i = ts ! i))"
proof (induction ts arbitrary: ts')
  case Nil
  then show ?case by simp
next
  case (Cons t ts)
  from Cons.prems obtain sel t' rest' where
    sel: "trace_selected layout xf t = Inr sel" and
    t': "(if sel then check_update_trace_data self t start stop else Inr t) = Inr t'" and
    rest: "update_traces self layout start stop xf ts = Inr rest'" and
    ts': "ts' = t' # rest'"
    by (auto split: sum.splits)
  from Cons.IH [OF rest] have
    len: "length rest' = length ts" and
    ih: "\<forall>i<length ts. \<exists>sel. trace_selected layout xf (ts ! i) = Inr sel
          \<and> (if sel then check_update_trace_data self (ts ! i) start stop = Inr (rest' ! i)
              else rest' ! i = ts ! i)"
    by simp_all
  show ?case
  proof (intro conjI allI impI)
    show "length ts' = length (t # ts)" using ts' len by simp
  next
    fix i assume i: "i < length (t # ts)"
    show "\<exists>sel. trace_selected layout xf ((t # ts) ! i) = Inr sel
          \<and> (if sel then check_update_trace_data self ((t # ts) ! i) start stop = Inr (ts' ! i)
              else ts' ! i = (t # ts) ! i)"
    proof (cases i)
      case 0
      with sel t' ts' show ?thesis by (cases sel) auto
    next
      case (Suc j)
      with i have j: "j < length ts" by simp
      from ih j obtain sel' where
        "trace_selected layout xf (ts ! j) = Inr sel'"
        "if sel' then check_update_trace_data self (ts ! j) start stop = Inr (rest' ! j)
         else rest' ! j = ts ! j"
        by blast
      with Suc ts' show ?thesis by (intro exI [of _ sel']) simp
    qed
  qed
qed

lemma lstrip_digits:
  assumes "set ds \<subseteq> set ''0123456789''"
  shows "lstrip (''xaxis'' @ ds) ''xaxis_filter'' = ds"
proof (cases ds)
  case Nil
  then show ?thesis by (simp add: lstrip_def)
next
  case (Cons d ds')
  with assms have "d \<in> set ''0123456789''" by simp
  then have "d \<notin> set ''xaxis_filter''" by auto
  with Cons show ?thesis by (simp add: lstrip_def)
qed

lemma xaxis_filter_short_digits:
  "set ds \<subseteq> set ''0123456789'' \<Longrightarrow> xaxis_filter_short (''xaxis'' @ ds) = ''x'' @ ds"
  using lstrip_digits [of ds] by (simp add: xaxis_filter_short_def)

lemma y_axis_key_xaxis:
  "y_axis_key (''xaxis'' @ ds) trace
     = (case t_yaxis trace of None \<Rightarrow> ''yaxis'' @ ds | Some ya \<Rightarrow> ''yaxis'' @ drop 1 ya)"
  by (simp add: y_axis_key_def split: option.splits)

lemma skip_anchor_rule:
  "skip_anchor (''x'' @ ds) anchor
     = (\<not> ((ds = [] \<and> (anchor = None \<or> anchor = Some ''x''))
          \<or> (ds \<noteq> [] \<and> anchor = Some (''x'' @ ds))))"
  by (auto simp: skip_anchor_def)

lemma sync_without_entry:
  "query_hf_data self trace = None \<Longrightarrow> check_update_trace_data self trace start stop = Inr trace"
  by (simp add: check_update_trace_data_def)

lemma batch_sync_nth:
  assumes ok: "check_update_figure_dict self figure start stop xaxis_filter = Inr figure'"
      and i: "i < length (fig_data figure)"
  shows "length (fig_data figure') = length (fig_data figure)
       \<and> fig_layout figure' = fig_layout figure
       \<and> (\<exists>sel. trace_selected (fig_layout figure) xaxis_filter (fig_data figure ! i) = Inr sel
            \<and> (if sel then check_update_trace_data self (fig_data figure ! i) start stop
                             = Inr (fig_data figure' ! i)
                else fig_data figure' ! i = fig_data figure ! i))"
proof -
  from ok obtain ts' where
    ut: "update_traces self (fig_layout figure) start stop xaxis_filter (fig_data figure) = Inr ts'"
    and f': "figure' = figure\<lparr>fig_data := ts'\<rparr>"
    by (auto simp: check_update_figure_dict_def split: sum.splits)
  from update_traces_nth [OF ut] i obtain sel where
    len: "length ts' = length (fig_data figure)" and
    sel: "trace_selected (fig_layout figure) xaxis_filter (fig_data figure ! i) = Inr sel" and
    step: "if sel then check_update_trace_data self (fig_data figure ! i) start stop = Inr (ts' ! i)
           else ts' ! i = fig_data figure ! i"
    by blast
  from len sel step f' show ?thesis by auto
qed

text \<open>
  C7. When the batch synchronisation returns, the figure has the same layout and as many
  traces, and a trace without an entry is as it was. Without an axis filter every trace
  is the result of the synchroniser on it. With the filter \<open>xaxis\<close> followed by digits
  (the first x-axis has none), the y-axis looked up for a trace is the one its \<open>yaxis\<close>
  names and, for a trace without \<open>yaxis\<close>, the y-axis with the filter's digits; the
  trace is the result of the synchroniser exactly when that y-axis is anchored to the
  filter's x-axis (for the first x-axis: has no anchor, or the anchor \<open>x\<close>), and is left
  as it was otherwise.
\<close>

theorem batch_sync_frame:
  assumes ok: "check_update_figure_dict self figure start stop xaxis_filter = Inr figure'"
      and i: "i < length (fig_data figure)"
  shows "length (fig_data figure') = length (fig_data figure)
       \<and> fig_layout figure' = fig_layout figure
       \<and> (query_hf_data self (fig_data figure ! i) = None \<longrightarrow>
            fig_data figure' ! i = fig_data figure ! i)
       \<and> (xaxis_filter = None \<longrightarrow>
            check_update_trace_data self (fig_data figure ! i) start stop
              = Inr (fig_data figure' ! i))
       \<and> (\<forall>ds. xaxis_filter = Some (''xaxis'' @ ds) \<and> set ds \<subseteq> set ''0123456789'' \<longrightarrow>
            (\<exists>anchor.
               fig_layout figure
                 (case t_yaxis (fig_data figure ! i) of
                    None \<Rightarrow> ''yaxis'' @ ds | Some ya \<Rightarrow> ''yaxis'' @ drop 1 ya) = Some anchor
             \<and> (if (ds = [] \<and> (anchor = None \<or> anchor = Some ''x''))
                     \<or> (ds \<noteq> [] \<and> anchor = Some (''x'' @ ds))
                 then check_update_trace_data self (fig_data figure ! i) start stop
                        = Inr (fig_data figure' ! i)
                 else fig_data figure' ! i = fig_data figure ! i)))"
proof -
  let ?t = "fig_data figure ! i" and ?t' = "fig_data figure' ! i"
  from batch_sync_nth [OF ok i] obtain sel where
    len: "length (fig_data figure') = length (fig_data figure)" and
    lay: "fig_layout figure' = fig_layout figure" and
    sel: "trace_selected (fig_layout figure) xaxis_filter ?t = Inr sel" and
    step: "if sel then check_update_trace_data self ?t start stop = Inr ?t' else ?t' = ?t"
    by blast
  have noentry: "?t' = ?t" if q: "query_hf_data self ?t = None"
  proof (cases sel)
    case True
    with step sync_without_entry [OF q, of start stop] show ?thesis by simp
  next
    case False
    with step show ?thesis by simp
  qed
  have nofilter: "check_update_trace_data self ?t start stop = Inr ?t'" if "xaxis_filter = None"
  proof -
    from sel that have "sel" by (simp add: trace_selected_def)
    with step show ?thesis by simp
  qed
  have filtered: "\<exists>anchor.
               fig_layout figure
                 (case t_yaxis ?t of
                    None \<Rightarrow> ''yaxis'' @ ds | Some ya \<Rightarrow> ''yaxis'' @ drop 1 ya) = Some anchor
             \<and> (if (ds = [] \<and> (anchor = None \<or> anchor = Some ''x''))
                     \<or> (ds \<noteq> [] \<and> anchor = Some (''x'' @ ds))
                 then check_update_trace_data self ?t start stop = Inr ?t'
                 else ?t' = ?t)"
    if xf: "xaxis_filter = Some (''xaxis'' @ ds)" and dg: "set ds \<subseteq> set ''0123456789''" for ds
  proof -
    from sel xf obtain anchor where
      a: "fig_layout figure (y_axis_key (''xaxis'' @ ds) ?t) = Some anchor" and
      s: "sel = (\<not> skip_anchor (xaxis_filter_short (''xaxis'' @ ds)) anchor)"
      by (auto simp: trace_selected_def split: option.splits)
    from a have a': "fig_layout figure
                 (case t_yaxis ?t of
                    None \<Rightarrow> ''yaxis'' @ ds | Some ya \<Rightarrow> ''yaxis'' @ drop 1 ya) = Some anchor"
      by (simp only: y_axis_key_xaxis)
    from s have s': "sel = ((ds = [] \<and> (anchor = None \<or> anchor = Some ''x''))
                     \<or> (ds \<noteq> [] \<and> anchor = Some (''x'' @ ds)))"
      by (simp only: xaxis_filter_short_digits [OF dg] skip_anchor_rule) simp
    from step a' show ?thesis unfolding s' by blast
  qed
  from len lay noentry nofilter filtered show ?thesis by blast
qed


theorem batch_sync_frame_witness:
  "map_sum id (\<lambda>f. (fig_data f ! 0, t_x (fig_data f ! 1), fig_data f ! 2))
        (check_update_figure_dict ex_resampler ex_figure3 (Some (Num 0)) (Some (Num 2))
           (Some ''xaxis2''))
     = Inr (fig_data ex_figure3 ! 0, Some (Array, Int64Index [0, 1]), fig_data ex_figure3 ! 2)
   \<and> map_sum id (\<lambda>f. (t_x (fig_data f ! 0), fig_data f ! 1))
        (check_update_figure_dict ex_resampler ex_figure3 (Some (Num 0)) (Some (Num 2))
           (Some ''xaxis''))
     = Inr (Some (Array, Int64Index [0, 1]), fig_data ex_figure3 ! 1)"
proof -
  let ?r2 = "check_update_figure_dict ex_resampler ex_figure3 (Some (Num 0)) (Some (Num 2))
           (Some ''xaxis2'')"
  let ?r1 = "check_update_figure_dict ex_resampler ex_figure3 (Some (Num 0)) (Some (Num 2))
           (Some ''xaxis'')"
  have "case ?r2 of Inl x \<Rightarrow> False | Inr s \<Rightarrow> True" by code_simp
  then obtain f2 where ok2: "?r2 = Inr f2" by (cases ?r2) simp_all
  have "case ?r1 of Inl x \<Rightarrow> False | Inr s \<Rightarrow> True" by code_simp
  then obtain f1 where ok1: "?r1 = Inr f1" by (cases ?r1) simp_all
  have x2: "Some ''xaxis2'' = Some (''xaxis'' @ ''2'')" and x1: "Some ''xaxis'' = Some (''xaxis'' @ [])"
    by simp_all
  have d2: "set ''2'' \<subseteq> set ''0123456789''" and d1: "set [] \<subseteq> set ''0123456789''"
    by simp_all
  have i: "0 < length (fig_data ex_figure3)" "1 < length (fig_data ex_figure3)"
    "2 < length (fig_data ex_figure3)"
    by (simp_all add: ex_figure3_def)
  have y: "t_yaxis (fig_data ex_figure3 ! 0) = Some ''y''"
    "t_yaxis (fig_data ex_figure3 ! 1) = Some ''y2''"
    by (simp_all add: ex_figure3_def)
  have l: "fig_layout ex_figure3 ''yaxis'' = Some (Some ''x'')"
    "fig_layout ex_figure3 ''yaxis2'' = Some (Some ''x2'')"
    by (simp_all add: ex_figure3_def)
  have q: "query_hf_data ex_resampler (fig_data ex_figure3 ! 2) = None"
    by (simp add: query_hf_data_def ex_figure3_def ex_resampler_def)
  have t0: "map_sum id t_x
     (check_update_trace_data ex_resampler (fig_data ex_figure3 ! 0) (Some (Num 0)) (Some (Num 2)))
     = Inr (Some (Array, Int64Index [0, 1]))"
    by code_simp
  have t1: "map_sum id t_x
     (check_update_trace_data ex_resampler (fig_data ex_figure3 ! 1) (Some (Num 0)) (Some (Num 2)))
     = Inr (Some (Array, Int64Index [0, 1]))"
    by code_simp
  from batch_sync_frame [OF ok2 i(1)] x2 d2 have
    "\<exists>anchor. fig_layout ex_figure3
        (case t_yaxis (fig_data ex_figure3 ! 0) of
           None \<Rightarrow> ''yaxis'' @ ''2'' | Some ya \<Rightarrow> ''yaxis'' @ drop 1 ya) = Some anchor
      \<and> (if (''2'' = [] \<and> (anchor = None \<or> anchor = Some ''x''))
              \<or> (''2'' \<noteq> [] \<and> anchor = Some (''x'' @ ''2''))
          then check_update_trace_data ex_resampler (fig_data ex_figure3 ! 0) (Some (Num 0))
                 (Some (Num 2)) = Inr (fig_data f2 ! 0)
          else fig_data f2 ! 0 = fig_data ex_figure3 ! 0)"
    by blast
  with y l have a0: "fig_data f2 ! 0 = fig_data ex_figure3 ! 0" by auto
  from batch_sync_frame [OF ok2 i(2)] x2 d2 have
    "\<exists>anchor. fig_layout ex_figure3
        (case t_yaxis (fig_data ex_figure3 ! 1) of
           None \<Rightarrow> ''yaxis'' @ ''2'' | Some ya \<Rightarrow> ''yaxis'' @ drop 1 ya) = Some anchor
      \<and> (if (''2'' = [] \<and> (anchor = None \<or> anchor = Some ''x''))
              \<or> (''2'' \<noteq> [] \<and> anchor = Some (''x'' @ ''2''))
          then check_update_trace_data ex_resampler (fig_data ex_figure3 ! 1) (Some (Num 0))
                 (Some (Num 2)) = Inr (fig_data f2 ! 1)
          else fig_data f2 ! 1 = fig_data ex_figure3 ! 1)"
    by blast
  with y l have "check_update_trace_data ex_resampler (fig_data ex_figure3 ! 1) (Some (Num 0))
                 (Some (Num 2)) = Inr (fig_data f2 ! 1)" by auto
  with t1 have a1: "t_x (fig_data f2 ! 1) = Some (Array, Int64Index [0, 1])" by simp
  from batch_sync_frame [OF ok2 i(3)] q
  have a2: "fig_data f2 ! 2 = fig_data ex_figure3 ! 2" by blast
  from batch_sync_frame [OF ok1 i(1)] x1 d1 have
    "\<exists>anchor. fig_layout ex_figure3
        (case t_yaxis (fig_data ex_figure3 ! 0) of
           None \<Rightarrow> ''yaxis'' @ [] | Some ya \<Rightarrow> ''yaxis'' @ drop 1 ya) = Some anchor
      \<and> (if ([] = ([]::string) \<and> (anchor = None \<or> anchor = Some ''x''))
              \<or> ([] \<noteq> ([]::string) \<and> anchor = Some (''x'' @ []))
          then check_update_trace_data ex_resampler (fig_data ex_figure3 ! 0) (Some (Num 0))
                 (Some (Num 2)) = Inr (fig_data f1 ! 0)
          else fig_data f1 ! 0 = fig_data ex_figure3 ! 0)"
    by blast
  with y l have "check_update_trace_data ex_resampler (fig_data ex_figure3 ! 0) (Some (Num 0))
                 (Some (Num 2)) = Inr (fig_data f1 ! 0)" by auto
  with t0 have b0: "t_x (fig_data f1 ! 0) = Some (Array, Int64Index [0, 1])" by simp
  from batch_sync_frame [OF ok1 i(2)] x1 d1 have
    "\<exists>anchor. fig_layout ex_figure3
        (case t_yaxis (fig_data ex_figure3 ! 1) of
           None \<Rightarrow> ''yaxis'' @ [] | Some ya \<Rightarrow> ''yaxis'' @ drop 1 ya) = Some anchor
      \<and> (if ([] = ([]::string) \<and> (anchor = None \<or> anchor = Some ''x''))
              \<or> ([] \<noteq> ([]::string) \<and> anchor = Some (''x'' @ []))
          then check_update_trace_data ex_resampler (fig_data ex_figure3 ! 1) (Some (Num 0))
                 (Some (Num 2)) = Inr (fig_data f1 ! 1)
          else fig_data f1 ! 1 = fig_data ex_figure3 ! 1)"
    by blast
  with y l have b1: "fig_data f1 ! 1 = fig_data ex_figure3 ! 1" by auto
  from ok2 ok1 a0 a1 a2 b0 b1 show ?thesis by simp
qed

text \<open>
  The first trace of \<open>ex_figure\<close> names no y-axis, so it is drawn on the default axes,
  and the default y-axis is anchored to \<open>x\<close>; a view change on \<open>xaxis2\<close> still
  rewrites its data, because the y-axis looked up for it is \<open>yaxis2\<close>.
\<close>

theorem batch_sync_default_axis:
  "t_yaxis (fig_data ex_figure ! 0) = None \<and> fig_layout ex_figure ''yaxis'' = Some (Some ''x'')
   \<and> map t_x (fig_data ex_figure) = [None, None]
   \<and> map_sum id (\<lambda>f. map t_x (fig_data f))
        (check_update_figure_dict ex_resampler ex_figure (Some (Num 0)) (Some (Num 2))
           (Some ''xaxis2''))
     = Inr [Some (Array, Int64Index [0, 1]), Some (Array, Int64Index [0, 1])]"
  by code_simp

end
